theory Spec2Isabelle
  imports Main "HOL-Library.AList"
begin

section \<open>Strings of the Go runtime used by the restore job\<close>

text \<open>
  A Go \<open>string\<close> or \<open>[]byte\<close> is a sequence of bytes; \<^typ>\<open>string\<close> (a list of 8-bit
  characters) is the same thing. Functions of the Go standard library that the job calls
  are modelled on bytes, with UTF-8 decoding where the library decodes.
\<close>

definition byte :: "char \<Rightarrow> nat" where
  "byte c = of_char c"

definition HasPrefix :: "string \<Rightarrow> string \<Rightarrow> bool" where
  \<comment> \<open>\<open>strings.HasPrefix(s, prefix)\<close>, \<open>bytes.HasPrefix\<close>\<close>
  "HasPrefix s pre = (length pre \<le> length s \<and> take (length pre) s = pre)"

definition HasSuffix :: "string \<Rightarrow> string \<Rightarrow> bool" where
  "HasSuffix s suf = (length suf \<le> length s \<and> drop (length s - length suf) s = suf)"

definition TrimPrefix :: "string \<Rightarrow> string \<Rightarrow> string" where
  "TrimPrefix s pre = (if HasPrefix s pre then drop (length pre) s else s)"

definition TrimSuffix :: "string \<Rightarrow> string \<Rightarrow> string" where
  "TrimSuffix s suf = (if HasSuffix s suf then take (length s - length suf) s else s)"

text \<open>
  \<open>utf8.DecodeRuneInString\<close>, as far as the number of bytes it consumes: one byte for
  ASCII and for every byte that does not start a well-formed encoding (the decoder then
  yields \<open>RuneError\<close> of width 1), otherwise the length of the encoding. The second byte
  of a three- or four-byte encoding has the narrowed range of the decoder's accept table.
\<close>

definition isCont :: "char \<Rightarrow> bool" where
  "isCont c = (0x80 \<le> byte c \<and> byte c \<le> 0xBF)"

fun runeWidth :: "string \<Rightarrow> nat" where
  "runeWidth [] = 0"
| "runeWidth (b0 # rest) =
     (let x = byte b0 in
      if x < 0x80 then 1
      else if x < 0xC2 then 1
      else if x \<le> 0xDF then
        (case rest of b1 # _ \<Rightarrow> if isCont b1 then 2 else 1 | _ \<Rightarrow> 1)
      else if x \<le> 0xEF then
        (case rest of
           b1 # b2 # _ \<Rightarrow>
             if (if x = 0xE0 then 0xA0 else 0x80) \<le> byte b1
                \<and> byte b1 \<le> (if x = 0xED then 0x9F else 0xBF) \<and> isCont b2
             then 3 else 1
         | _ \<Rightarrow> 1)
      else if x \<le> 0xF4 then
        (case rest of
           b1 # b2 # b3 # _ \<Rightarrow>
             if (if x = 0xF0 then 0x90 else 0x80) \<le> byte b1
                \<and> byte b1 \<le> (if x = 0xF4 then 0x8F else 0xBF) \<and> isCont b2 \<and> isCont b3
             then 4 else 1
         | _ \<Rightarrow> 1)
      else 1)"

text \<open>
  The regular expression \<open>\W\<close> of \<open>filenameFormatter\<close> matches one rune that is not in
  \<open>[0-9A-Za-z_]\<close>; a byte that is not valid UTF-8 is the rune \<open>RuneError\<close> and matches too.
  \<open>ReplaceAllString\<close> is \<open>filenameFormatter.ReplaceAllString(s, "_")\<close>.
\<close>

definition isWordChar :: "char \<Rightarrow> bool" where
  "isWordChar c =
     ((0x30 \<le> byte c \<and> byte c \<le> 0x39) \<or> (0x41 \<le> byte c \<and> byte c \<le> 0x5A)
      \<or> byte c = 0x5F \<or> (0x61 \<le> byte c \<and> byte c \<le> 0x7A))"

function ReplaceAllString :: "string \<Rightarrow> string" where
  "ReplaceAllString [] = []"
| "ReplaceAllString (c # cs) =
     (if isWordChar c then c # ReplaceAllString cs
      else CHR ''_'' # ReplaceAllString (drop (runeWidth (c # cs)) (c # cs)))"
  by pat_completeness auto
termination
  by (relation "measure length") (auto simp: Let_def split: list.split)

text \<open>
  \<open>filepath.Ext\<close> on a system whose path separator is the slash: the loop runs the index
  down from the last byte and stops at a separator; \<open>ExtFrom path (Suc i)\<close> is the loop
  at index \<open>i\<close>.
\<close>

fun ExtFrom :: "string \<Rightarrow> nat \<Rightarrow> string" where
  "ExtFrom path 0 = []"
| "ExtFrom path (Suc i) =
     (if path ! i = CHR ''/'' then []
      else if path ! i = CHR ''.'' then drop i path
      else ExtFrom path i)"

definition Ext :: "string \<Rightarrow> string" where
  "Ext path = ExtFrom path (length path)"

text \<open>
  \<open>bytes.TrimSpace\<close> and \<open>strings.TrimSpace\<close> remove the leading and then the trailing
  runes that \<open>unicode.IsSpace\<close> accepts. \<open>unicodeSpaces\<close> lists the UTF-8 encodings of
  those runes (U+0009 to U+000D, U+0020, U+0085, U+00A0, U+1680, U+2000 to U+200A, U+2028,
  U+2029, U+202F, U+205F, U+3000); a byte sequence is such a rune exactly when it is one
  of these encodings.
\<close>

definition unicodeSpaces :: "string list" where
  "unicodeSpaces =
     [[CHR 0x09], [CHR 0x0A], [CHR 0x0B], [CHR 0x0C], [CHR 0x0D], [CHR 0x20],
      [CHR 0xC2, CHR 0x85], [CHR 0xC2, CHR 0xA0], [CHR 0xE1, CHR 0x9A, CHR 0x80],
      [CHR 0xE2, CHR 0x80, CHR 0x80], [CHR 0xE2, CHR 0x80, CHR 0x81],
      [CHR 0xE2, CHR 0x80, CHR 0x82], [CHR 0xE2, CHR 0x80, CHR 0x83],
      [CHR 0xE2, CHR 0x80, CHR 0x84], [CHR 0xE2, CHR 0x80, CHR 0x85],
      [CHR 0xE2, CHR 0x80, CHR 0x86], [CHR 0xE2, CHR 0x80, CHR 0x87],
      [CHR 0xE2, CHR 0x80, CHR 0x88], [CHR 0xE2, CHR 0x80, CHR 0x89],
      [CHR 0xE2, CHR 0x80, CHR 0x8A], [CHR 0xE2, CHR 0x80, CHR 0xA8],
      [CHR 0xE2, CHR 0x80, CHR 0xA9], [CHR 0xE2, CHR 0x80, CHR 0xAF],
      [CHR 0xE2, CHR 0x81, CHR 0x9F], [CHR 0xE3, CHR 0x80, CHR 0x80]]"

definition leadingSpace :: "string \<Rightarrow> nat" where
  \<comment> \<open>width of the first rune when it is white space, otherwise 0\<close>
  "leadingSpace s =
     (case filter (HasPrefix s) unicodeSpaces of [] \<Rightarrow> 0 | e # _ \<Rightarrow> length e)"

definition trailingSpace :: "string \<Rightarrow> nat" where
  \<comment> \<open>width of the last rune when it is white space, otherwise 0\<close>
  "trailingSpace s =
     (case filter (HasSuffix s) unicodeSpaces of [] \<Rightarrow> 0 | e # _ \<Rightarrow> length e)"

function TrimLeftSpace :: "string \<Rightarrow> string" where
  "TrimLeftSpace s =
     (if 0 < leadingSpace s \<and> leadingSpace s \<le> length s
      then TrimLeftSpace (drop (leadingSpace s) s) else s)"
  by pat_completeness auto
termination
  by (relation "measure length") auto

function TrimRightSpace :: "string \<Rightarrow> string" where
  "TrimRightSpace s =
     (if 0 < trailingSpace s \<and> trailingSpace s \<le> length s
      then TrimRightSpace (take (length s - trailingSpace s) s) else s)"
  by pat_completeness auto
termination
  by (relation "measure length") auto

definition TrimSpace :: "string \<Rightarrow> string" where
  "TrimSpace s = TrimRightSpace (TrimLeftSpace s)"

text \<open>\<open>strconv.Itoa\<close>: the decimal digits, with a minus sign for a negative number.\<close>

fun natDigits :: "nat \<Rightarrow> string" where
  "natDigits n =
     (if n < 10 then [''0123456789'' ! n]
      else natDigits (n div 10) @ [''0123456789'' ! (n mod 10)])"

definition Itoa :: "int \<Rightarrow> string" where
  "Itoa i = (if i < 0 then CHR ''-'' # natDigits (nat (- i)) else natDigits (nat i))"

text \<open>
  \<open>path.Clean\<close> and \<open>path.Join\<close>. \<open>cleanLoop rooted out dotdot rest\<close> is the loop of
  \<open>Clean\<close> with \<open>rest\<close> the unread part of the path, \<open>out\<close> the bytes written so far
  and \<open>dotdot\<close> the index where backtracking must stop; \<open>backtrack\<close> is the removal of
  the last written element for a \<open>..\<close> element.
\<close>

function backtrack :: "nat \<Rightarrow> string \<Rightarrow> string" where
  "backtrack dotdot out =
     (if out = [] then []
      else if dotdot < length (butlast out) \<and> last out \<noteq> CHR ''/''
      then backtrack dotdot (butlast out) else butlast out)"
  by pat_completeness auto
termination
  by (relation "measure (\<lambda>(d, out). length out)") auto

function cleanLoop :: "bool \<Rightarrow> string \<Rightarrow> nat \<Rightarrow> string \<Rightarrow> string" where
  "cleanLoop rooted out dotdot [] = out"
| "cleanLoop rooted out dotdot (c # cs) =
     (if c = CHR ''/'' then cleanLoop rooted out dotdot cs
      else if c = CHR ''.'' \<and> (cs = [] \<or> hd cs = CHR ''/'') then cleanLoop rooted out dotdot cs
      else if c = CHR ''.'' \<and> hd cs = CHR ''.'' \<and> (tl cs = [] \<or> hd (tl cs) = CHR ''/'') then
        (if dotdot < length out then cleanLoop rooted (backtrack dotdot out) dotdot (tl cs)
         else if \<not> rooted then
           cleanLoop rooted ((if 0 < length out then out @ ''/'' else out) @ ''..'')
             (length ((if 0 < length out then out @ ''/'' else out) @ ''..'')) (tl cs)
         else cleanLoop rooted out dotdot (tl cs))
      else
        cleanLoop rooted
          ((if rooted \<and> length out \<noteq> 1 \<or> \<not> rooted \<and> length out \<noteq> 0
            then out @ ''/'' else out)
             @ takeWhile (\<lambda>x. x \<noteq> CHR ''/'') (c # cs))
          dotdot (dropWhile (\<lambda>x. x \<noteq> CHR ''/'') (c # cs)))"
  by pat_completeness auto
termination
  by (relation "measure (\<lambda>(ro, out, d, rest). length rest)")
    (auto simp: le_imp_less_Suc length_dropWhile_le)

definition Clean :: "string \<Rightarrow> string" where
  "Clean path =
     (if path = [] then ''.''
      else let rooted = (hd path = CHR ''/'');
               out = (if rooted then cleanLoop True ''/'' 1 (tl path)
                      else cleanLoop False [] 0 path)
           in if out = [] then ''.'' else out)"

fun joinElems :: "string \<Rightarrow> string list \<Rightarrow> string" where
  "joinElems buf [] = buf"
| "joinElems buf (e # es) =
     (if 0 < length buf \<or> e \<noteq> []
      then joinElems ((if 0 < length buf then buf @ ''/'' else buf) @ e) es
      else joinElems buf es)"

definition path_Join :: "string list \<Rightarrow> string" where
  "path_Join elem =
     (if sum_list (map length elem) = 0 then [] else Clean (joinElems [] elem))"

text \<open>
  \<open>strings.NewReplacer(old1, new1, ...).Replace\<close>: at each position of the text the old
  strings are compared in argument order, the first that matches is replaced and the scan
  goes on behind it. \<open>pq.QuoteLiteral\<close> doubles single quotes and, when the text holds a
  backslash, doubles backslashes and writes the escape-string form.
\<close>

function Replace :: "(string \<times> string) list \<Rightarrow> string \<Rightarrow> string" where
  "Replace oldnew [] = []"
| "Replace oldnew (c # cs) =
     (case find (\<lambda>p. fst p \<noteq> [] \<and> HasPrefix (c # cs) (fst p)) oldnew of
        Some p \<Rightarrow> snd p @ Replace oldnew (drop (length (fst p)) (c # cs))
      | None \<Rightarrow> c # Replace oldnew cs)"
  by pat_completeness auto
termination
  by (relation "measure (\<lambda>(oldnew, s). length s)") (auto simp: find_Some_iff)

definition QuoteLiteral :: "string \<Rightarrow> string" where
  "QuoteLiteral literal =
     (let quoted = concat (map (\<lambda>c. if c = CHR 0x27 then [c, c] else [c]) literal) in
      if CHR 0x5C \<in> set quoted
      then '' E'' @ [CHR 0x27]
           @ concat (map (\<lambda>c. if c = CHR 0x5C then [c, c] else [c]) quoted) @ [CHR 0x27]
      else [CHR 0x27] @ quoted @ [CHR 0x27])"

section \<open>Errors\<close>

text \<open>
  Go errors are values. \<open>Wrap err msg\<close> is \<open>errors.Wrap(err, msg)\<close>, and
  \<open>Wrapf err format arg\<close> is \<open>errors.Wrapf(err, format, arg)\<close>;
  \<open>ErrDBNameNotFound\<close> is the package variable \<open>errDBNameNotFound\<close>;
  \<open>ErrDataDirNotEmpty dir\<close> is the error that \<open>Run\<close> makes with
  \<open>errors.Errorf("the data directory %q is not empty. ...", dir)\<close>;
  \<open>ErrNotExist\<close> is a file-system error for which \<open>os.IsNotExist\<close> holds;
  \<open>ErrHealthCheck\<close> is a \<open>*tools.ErrHealthCheck\<close>; \<open>External\<close> is any other error
  that a collaborator returns.
\<close>

datatype error =
    ErrorNew string
  | ErrDBNameNotFound
  | ErrDataDirNotEmpty string
  | ErrNotExist string
  | ErrHealthCheck string
  | External string
  | Wrap error string
  | Wrapf error string string

fun errors_Is :: "error \<Rightarrow> error \<Rightarrow> bool" where
  "errors_Is (Wrap e msg) target = (Wrap e msg = target \<or> errors_Is e target)"
| "errors_Is (Wrapf e format arg) target = (Wrapf e format arg = target \<or> errors_Is e target)"
| "errors_Is e target = (e = target)"

fun errors_As_ErrHealthCheck :: "error \<Rightarrow> bool" where
  "errors_As_ErrHealthCheck (ErrHealthCheck msg) = True"
| "errors_As_ErrHealthCheck (Wrap e msg) = errors_As_ErrHealthCheck e"
| "errors_As_ErrHealthCheck (Wrapf e format arg) = errors_As_ErrHealthCheck e"
| "errors_As_ErrHealthCheck e = False"

fun os_IsNotExist :: "error \<Rightarrow> bool" where
  "os_IsNotExist (ErrNotExist p) = True"
| "os_IsNotExist e = False"

section \<open>Data model\<close>

text \<open>
  Modelled from the spec: the pool, the global configuration, the marker configuration,
  the database definition and the job configuration are declared outside the sources at
  hand. Their records hold the attributes that the spec's data model lists for them and
  that the job's code reads, as fields (a method such as \<open>fsPool.DataDir()\<close> or
  \<open>globalCfg.Database.User()\<close> is the field of its result). The options and the job
  itself are the structs of the job's file; the embedded \<open>RestoreOptions\<close> of the job is
  the field \<open>Options\<close>. The records of the Docker API hold the fields that the job
  sets. \<open>'t\<close> is the type of points in time (\<open>time.Time\<close>).
\<close>

record 't Pool =
  MountDir :: string
  DataDir :: string
  DSA :: 't

record global_Database =
  User :: string
  Name :: string

record global_Config =
  InstanceID :: string
  Database :: global_Database

record dbmarker_Config =
  DataType :: string
  DataStateAt :: string

record DBDefinition =
  Tables :: "string list"
  Format :: string
  dbName :: string

record RestoreOptions =
  DumpLocation :: string
  DockerImage :: string
  ContainerConfig :: "(string \<times> string) list"
  Databases :: "(string \<times> DBDefinition) list"
  ForceInit :: bool
  ParallelJobs :: int
  Configs :: "(string \<times> string) list"

record 't RestoreJob =
  name :: string
  fsPool :: "'t Pool"
  globalCfg :: global_Config
  dbMark :: dbmarker_Config
  Options :: RestoreOptions

record 't JobConfig =
  Spec_Name :: string
  Spec_Options :: "(string \<times> string) list"
  FSPool :: "'t Pool"

record Mount =
  Type :: string
  Source :: string
  Target :: string

record HostConfig =
  Mounts :: "Mount list"
  Settings :: "(string \<times> string) list"

record container_Config =
  Labels :: "(string \<times> string) list"
  Env :: "string list"
  Image :: string
  Healthcheck :: "string list"

record ExecConfig =
  Tty :: bool
  AttachStdout :: bool
  AttachStderr :: bool
  Cmd :: "string list"

record FileInfo =
  info_Name :: string
  info_IsDir :: bool

subsection \<open>Constants\<close>

definition restoreContainerPrefix :: string where
  "restoreContainerPrefix = ''dblab_lr_''"

definition defaultParallelJobs :: int where
  "defaultParallelJobs = 1"

definition dumpMetafile :: string where
  "dumpMetafile = ''toc.dat''"

definition prefixDBName :: string where
  "prefixDBName = ''dbname:''"

definition prefixConnectDB :: string where
  "prefixConnectDB = [CHR 0x5C] @ ''connect ''"

definition prefixCreateTable :: string where
  "prefixCreateTable = ''CREATE TABLE ''"

definition templateCreateDB :: string where
  "templateCreateDB =
     [CHR 0x0A] @ ''create database @database with template = template0 encoding = ''
     @ [CHR 0x27] @ ''utf8'' @ [CHR 0x27] @ '';'' @ [CHR 0x0A]
     @ ''alter database @database owner to @username; '' @ [CHR 0x0A]"

definition customFormat :: string where
  \<comment> \<open>Modelled from the spec: the format constants \<open>customFormat\<close>, \<open>directoryFormat\<close>
     and \<open>plainFormat\<close> are declared outside the sources at hand; the spec names the three
     formats custom, directory and plain.\<close>
  "customFormat = ''custom''"

definition directoryFormat :: string where
  \<comment> \<open>Modelled from the spec: see \<open>customFormat\<close>.\<close>
  "directoryFormat = ''directory''"

definition plainFormat :: string where
  \<comment> \<open>Modelled from the spec: see \<open>customFormat\<close>.\<close>
  "plainFormat = ''plain''"

definition defaults_DBName :: string where
  \<comment> \<open>Modelled from the spec: the constant \<open>defaults.DBName\<close> is declared outside the
     sources at hand; the spec's scenarios show the default database as \<open>postgres\<close>.\<close>
  "defaults_DBName = ''postgres''"

definition DBLabControlLabel :: string where
  \<comment> \<open>Modelled from the spec: the label constants of package \<open>cont\<close> are declared outside
     the sources at hand; the spec gives the labels \<open>dblab_control = "restore"\<close> and
     \<open>dblab_instance_id\<close>.\<close>
  "DBLabControlLabel = ''dblab_control''"

definition DBLabRestoreLabel :: string where
  \<comment> \<open>Modelled from the spec: see \<open>DBLabControlLabel\<close>.\<close>
  "DBLabRestoreLabel = ''restore''"

definition DBLabInstanceIDLabel :: string where
  \<comment> \<open>Modelled from the spec: see \<open>DBLabControlLabel\<close>.\<close>
  "DBLabInstanceIDLabel = ''dblab_instance_id''"

definition LogicalDataType :: string where
  \<comment> \<open>Modelled from the spec: \<open>dbmarker.LogicalDataType\<close> is declared outside the sources
     at hand; the spec gives the data type tag \<open>logical\<close>.\<close>
  "LogicalDataType = ''logical''"

section \<open>The world outside the job\<close>

text \<open>
  Every operation that leaves the job (the file system, the Docker daemon, commands run in
  the container, the marker file) is a \<open>call\<close>. The job appends each call to the history
  of calls made so far, and the world answers the last call of a history: with an error or
  none (\<open>failure\<close>) and with the value the operation returns. An answer may depend on
  everything that happened before. Logging is not part of the model.

  The world also holds what the job takes from the rest of the repository and from the
  process: the environment of the process (\<open>os.Environ\<close>), \<open>health.GetConfig\<close>,
  \<open>buildAnalyzeCommand\<close>, \<open>options.Unmarshal\<close> into the job's options,
  \<open>time.Parse\<close> with the layout \<open>util.DataStateAtFormat\<close>, and the order in which
  \<open>range\<close> visits the entries of a map, which Go leaves open.
\<close>

datatype call =
    IsEmptyDirectory string
  | PullImage string
  | BuildHostConfig string "(string \<times> string) list"
  | GeneratePassword
  | ContainerCreate container_Config HostConfig string
  | RemoveContainer string
  | PrintContainerLogs string
  | ContainerStart string
  | CheckContainerReadiness string
  | setupPGData string string
  | updateConfigs string string "(string \<times> string) list"
  | Stat string
  | ReadDir string
  | Open string
  | Close string
  | ExecCommandWithOutput string ExecConfig
  | ExecCommand string ExecConfig
  | StopPostgres string string
  | TempFile string string
  | WriteFile string string
  | Remove string
  | ContainerExecCreate string ExecConfig
  | ContainerExecAttach string
  | DiscoverDataStateAt string
  | CloseAttach string
  | CreateConfig
  | SaveConfig dbmarker_Config

record 't world =
  failure :: "call list \<Rightarrow> error option"
  outBool :: "call list \<Rightarrow> bool"
  outString :: "call list \<Rightarrow> string"
  outStrings :: "call list \<Rightarrow> string list"
  outFileInfos :: "call list \<Rightarrow> FileInfo list"
  outHostConfig :: "call list \<Rightarrow> HostConfig"
  os_Environ :: "string list"
  health_GetConfig :: "string \<Rightarrow> string \<Rightarrow> string list"
  buildAnalyzeCommand :: "string \<Rightarrow> string \<Rightarrow> int \<Rightarrow> string list"
  options_Unmarshal :: "(string \<times> string) list \<Rightarrow> RestoreOptions \<Rightarrow> error + RestoreOptions"
  time_Parse :: "string \<Rightarrow> error + 't"
  rangeOrder :: "(string \<times> DBDefinition) list \<Rightarrow> (string \<times> DBDefinition) list"

section \<open>The restore job\<close>

definition setDefaults :: "'t RestoreJob \<Rightarrow> 't RestoreJob" where
  "setDefaults r =
     (if ParallelJobs (Options r) = 0
      then r\<lparr>Options := (Options r)\<lparr>ParallelJobs := defaultParallelJobs\<rparr>\<rparr>
      else r)"

definition restoreContainerName :: "'t RestoreJob \<Rightarrow> string" where
  "restoreContainerName r = restoreContainerPrefix @ InstanceID (globalCfg r)"

definition Reload :: "'t world \<Rightarrow> 't RestoreJob \<Rightarrow> (string \<times> string) list \<Rightarrow> error + 't RestoreJob" where
  "Reload w r cfg =
     (case options_Unmarshal w cfg (Options r) of
        Inl err \<Rightarrow> Inl (Wrap err ''failed to unmarshal configuration options'')
      | Inr opts \<Rightarrow> Inr (setDefaults (r\<lparr>Options := opts\<rparr>)))"

definition NewJob :: "'t world \<Rightarrow> 't JobConfig \<Rightarrow> global_Config \<Rightarrow> error + 't RestoreJob" where
  "NewJob w cfg global =
     (let restoreJob =
        \<lparr>name = Spec_Name cfg, fsPool = FSPool cfg, globalCfg = global,
         dbMark = \<lparr>DataType = LogicalDataType, DataStateAt = []\<rparr>,
         Options = \<lparr>DumpLocation = [], DockerImage = [], ContainerConfig = [],
                    Databases = [], ForceInit = False, ParallelJobs = 0, Configs = []\<rparr>\<rparr>
      in case Reload w restoreJob (Spec_Options cfg) of
           Inl err \<Rightarrow> Inl (Wrap err ''failed to unmarshal configuration options'')
         | Inr restoreJob' \<Rightarrow> Inr (setDefaults restoreJob'))"

definition formatDBName :: "string \<Rightarrow> string" where
  "formatDBName fileName = ReplaceAllString (TrimSuffix fileName (Ext fileName))"

definition getDumpLocation :: "'t RestoreJob \<Rightarrow> string \<Rightarrow> string \<Rightarrow> string" where
  "getDumpLocation r dumpFormat dbName' =
     (if dumpFormat = customFormat then DumpLocation (Options r)
      else path_Join [DumpLocation (Options r), dbName'])"

definition buildPlainTextCommand :: "'t RestoreJob \<Rightarrow> string \<Rightarrow> DBDefinition \<Rightarrow> string list" where
  "buildPlainTextCommand r dumpName definition =
     (let dbName' = (if dbName definition = [] then formatDBName dumpName else defaults_DBName)
      in [''psql'', ''--username'', User (Database (globalCfg r)), ''--dbname'', dbName',
          ''--file'', getDumpLocation r (Format definition) dumpName])"

fun tableArgs :: "string list \<Rightarrow> string list" where
  \<comment> \<open>the loop that appends \<open>--table\<close> and the table for each declared table\<close>
  "tableArgs [] = []"
| "tableArgs (table # tables) = [''--table'', table] @ tableArgs tables"

definition buildPGRestoreCommand :: "'t RestoreJob \<Rightarrow> string \<Rightarrow> DBDefinition \<Rightarrow> string list" where
  "buildPGRestoreCommand r dumpName definition =
     (let restoreCmd = [''pg_restore'', ''--username'', User (Database (globalCfg r)),
                        ''--dbname'', defaults_DBName, ''--no-privileges'', ''--no-owner''];
          restoreCmd = (if dumpName \<noteq> defaults_DBName then restoreCmd @ [''--create'']
                        else restoreCmd);
          restoreCmd = (if ForceInit (Options r) then restoreCmd @ [''--clean'', ''--if-exists'']
                        else restoreCmd);
          restoreCmd = restoreCmd @ [''--jobs'', Itoa (ParallelJobs (Options r))];
          restoreCmd = (if 0 < length (Tables definition)
                        then restoreCmd @ tableArgs (Tables definition) else restoreCmd)
      in restoreCmd @ [getDumpLocation r (Format definition) dumpName])"

definition buildLogicalRestoreCommand :: "'t RestoreJob \<Rightarrow> string \<Rightarrow> DBDefinition \<Rightarrow> string list" where
  "buildLogicalRestoreCommand r dumpName definition =
     (if Format definition = plainFormat then buildPlainTextCommand r dumpName definition
      else buildPGRestoreCommand r dumpName definition)"

definition buildContainerConfig :: "'t world \<Rightarrow> 't RestoreJob \<Rightarrow> string \<Rightarrow> container_Config" where
  "buildContainerConfig w r password =
     \<lparr>Labels = [(DBLabControlLabel, DBLabRestoreLabel),
                (DBLabInstanceIDLabel, InstanceID (globalCfg r))],
      Env = os_Environ w @ [''PGDATA='' @ DataDir (fsPool r), ''POSTGRES_PASSWORD='' @ password],
      Image = DockerImage (Options r),
      Healthcheck = health_GetConfig w (User (Database (globalCfg r)))
                      (Name (Database (globalCfg r)))\<rparr>"

definition getHostConfig :: "'t world \<Rightarrow> 't RestoreJob \<Rightarrow> call list \<Rightarrow> (error + HostConfig) \<times> call list" where
  "getHostConfig w r h =
     (let h1 = h @ [BuildHostConfig (DataDir (fsPool r)) (ContainerConfig (Options r))] in
      case failure w h1 of
        Some err \<Rightarrow> (Inl err, h1)
      | None \<Rightarrow>
          (let hostConfig = outHostConfig w h1 in
           if HasPrefix (DumpLocation (Options r)) (MountDir (fsPool r))
           then (Inr (hostConfig\<lparr>Mounts := Mounts hostConfig @
                        [\<lparr>Type = ''bind'', Source = DumpLocation (Options r),
                          Target = DumpLocation (Options r)\<rparr>]\<rparr>), h1)
           else (Inr hostConfig, h1)))"

text \<open>
  \<open>parsePlainFile\<close> reads the lines that the \<open>bufio.Scanner\<close> yields for the opened
  file; \<open>scanPlain\<close> is its loop over them. The loop ends when the scanner yields no
  further line, whatever the reason: the code does not look at the scanner's error.
\<close>

fun scanPlain :: "string list \<Rightarrow> error + string" where
  "scanPlain [] = Inl ErrDBNameNotFound"
| "scanPlain (line # lines) =
     (if HasPrefix line prefixConnectDB then
        (let nameCandidate = TrimSpace (TrimPrefix line prefixConnectDB) in
         if 0 < length nameCandidate then Inr nameCandidate else Inl ErrDBNameNotFound)
      else if HasPrefix line prefixCreateTable then Inl ErrDBNameNotFound
      else scanPlain lines)"

definition parsePlainFile :: "'t world \<Rightarrow> call list \<Rightarrow> string \<Rightarrow> (error + string) \<times> call list" where
  "parsePlainFile w h dumpPath =
     (let h1 = h @ [Open dumpPath] in
      case failure w h1 of
        Some err \<Rightarrow> (Inl (Wrap err ''failed to open dump file''), h1)
      | None \<Rightarrow> (scanPlain (outStrings w h1), h1 @ [Close dumpPath]))"

fun discoverEntries ::
  "'t world \<Rightarrow> call list \<Rightarrow> string \<Rightarrow> FileInfo list \<Rightarrow> (string \<times> DBDefinition) list
     \<Rightarrow> (error + (string \<times> DBDefinition) list) \<times> call list" where
  "discoverEntries w h dumpLocation [] dbList = (Inr dbList, h)"
| "discoverEntries w h dumpLocation (info # fileInfos) dbList =
     (if info_IsDir info then
        discoverEntries w h dumpLocation fileInfos
          (AList.update (info_Name info)
             \<lparr>Tables = [], Format = directoryFormat, dbName = []\<rparr> dbList)
      else
        (case parsePlainFile w h (path_Join [dumpLocation, info_Name info]) of
           (Inl err, h1) \<Rightarrow>
             if errors_Is err ErrDBNameNotFound then
               discoverEntries w h1 dumpLocation fileInfos
                 (AList.update (info_Name info)
                    \<lparr>Tables = [], Format = plainFormat, dbName = []\<rparr> dbList)
             else (Inl err, h1)
         | (Inr dbName', h1) \<Rightarrow>
             discoverEntries w h1 dumpLocation fileInfos
               (AList.update (info_Name info)
                  \<lparr>Tables = [], Format = plainFormat, dbName = dbName'\<rparr> dbList)))"

definition discoverDumpLocation ::
  "'t world \<Rightarrow> call list \<Rightarrow> string \<Rightarrow> (error + (string \<times> DBDefinition) list) \<times> call list" where
  "discoverDumpLocation w h dumpLocation =
     (let h1 = h @ [ReadDir dumpLocation] in
      case failure w h1 of
        Some err \<Rightarrow> (Inl (Wrap err ''failed to discover dump location''), h1)
      | None \<Rightarrow> discoverEntries w h1 dumpLocation (outFileInfos w h1) [])"

definition discoverCustomDump ::
  "'t world \<Rightarrow> call list \<Rightarrow> string \<Rightarrow> string
     \<Rightarrow> (error + (string \<times> DBDefinition) list) \<times> call list" where
  "discoverCustomDump w h contID dumpMetaPath =
     (let extractDBNameCmd = ''pg_restore --list '' @ dumpMetaPath @ '' | grep '' @ prefixDBName
                             @ '' | tr -d '' @ [CHR 0x27] @ ''[;]'' @ [CHR 0x27];
          h1 = h @ [ExecCommandWithOutput contID
                      \<lparr>Tty = False, AttachStdout = False, AttachStderr = False,
                       Cmd = [''bash'', ''-c'', extractDBNameCmd]\<rparr>]
      in case failure w h1 of
           Some err \<Rightarrow> (Inl (Wrap err ''failed to find a database name to restore''), h1)
         | None \<Rightarrow>
             (let outputLine = outString w h1 in
              if outputLine = [] then (Inl (ErrorNew ''a database name to restore not found''), h1)
              else (Inr [(TrimSpace (TrimPrefix outputLine prefixDBName),
                          \<lparr>Tables = [], Format = customFormat, dbName = []\<rparr>)], h1)))"

definition getDBList ::
  "'t world \<Rightarrow> 't RestoreJob \<Rightarrow> call list \<Rightarrow> string \<Rightarrow> string \<Rightarrow> string
     \<Rightarrow> (error + (string \<times> DBDefinition) list) \<times> call list" where
  "getDBList w r h dumpLocation dumpFileMeta contID =
     (if 0 < length (Databases (Options r)) then (Inr (Databases (Options r)), h)
      else
        (let dumpMetafilePath = path_Join [dumpLocation, dumpFileMeta];
             h1 = h @ [Stat dumpMetafilePath]
         in case failure w h1 of
              None \<Rightarrow> discoverCustomDump w h1 contID dumpMetafilePath
            | Some err \<Rightarrow>
                if os_IsNotExist err then discoverDumpLocation w h1 dumpLocation
                else (Inl err, h1)))"

text \<open>
  \<open>prepareDB\<close> creates the database for a plain dump that names none. Its two deferred
  calls close and remove the temporary file on every way out once the file exists.
\<close>

definition prepareDB :: "'t world \<Rightarrow> 't RestoreJob \<Rightarrow> call list \<Rightarrow> string \<Rightarrow> string \<Rightarrow> error option \<times> call list" where
  "prepareDB w r h contID dbName' =
     (let creationSQL =
            Replace [(''@database'', QuoteLiteral (formatDBName dbName')),
                     (''@username'', QuoteLiteral (User (Database (globalCfg r))))]
              templateCreateDB;
          h1 = h @ [TempFile (DumpLocation (Options r)) (''createdb_'' @ dbName' @ ''_*.sql'')]
      in case failure w h1 of
           Some err \<Rightarrow> (Some err, h1)
         | None \<Rightarrow>
             (let tempFile = outString w h1;
                  h2 = h1 @ [WriteFile tempFile creationSQL]
              in case failure w h2 of
                   Some err \<Rightarrow> (Some err, h2 @ [Close tempFile, Remove tempFile])
                 | None \<Rightarrow>
                     (let cmd = [''psql'', ''--username'', User (Database (globalCfg r)),
                                 ''--dbname'', defaults_DBName, ''--file'', tempFile];
                          h3 = h2 @ [ExecCommand contID
                                       \<lparr>Tty = False, AttachStdout = False,
                                        AttachStderr = False, Cmd = cmd\<rparr>]
                      in case failure w h3 of
                           Some err \<Rightarrow> (Some (Wrap err ''failed to exec restore command''),
                                        h3 @ [Close tempFile, Remove tempFile])
                         | None \<Rightarrow> (None, h3 @ [Close tempFile, Remove tempFile]))))"

definition retrieveDataStateAt ::
  "'t world \<Rightarrow> call list \<Rightarrow> string \<Rightarrow> string \<Rightarrow> (error + string) \<times> call list" where
  "retrieveDataStateAt w h contID dumpLocation =
     (let restoreMetaCmd = [''sh'', ''-c'', ''pg_restore --list '' @ dumpLocation @ '' | head -n 10''];
          h1 = h @ [ContainerExecCreate contID
                      \<lparr>Tty = False, AttachStdout = True, AttachStderr = True,
                       Cmd = restoreMetaCmd\<rparr>]
      in case failure w h1 of
           Some err \<Rightarrow> (Inl (Wrap err ''failed to create a restore metadata command''), h1)
         | None \<Rightarrow>
             (let execID = outString w h1;
                  h2 = h1 @ [ContainerExecAttach execID]
              in case failure w h2 of
                   Some err \<Rightarrow> (Inl (Wrap err ''failed to exec a restore metadata command''), h2)
                 | None \<Rightarrow>
                     (let h3 = h2 @ [DiscoverDataStateAt execID] in
                      case failure w h3 of
                        Some err \<Rightarrow> (Inl err, h3 @ [CloseAttach execID])
                      | None \<Rightarrow> (Inr (outString w h3), h3 @ [CloseAttach execID]))))"

definition updateDataStateAt :: "'t world \<Rightarrow> 't RestoreJob \<Rightarrow> 't RestoreJob" where
  "updateDataStateAt w r =
     (case time_Parse w (DataStateAt (dbMark r)) of
        Inl err \<Rightarrow> r
      | Inr dsaTime \<Rightarrow> r\<lparr>fsPool := (fsPool r)\<lparr>DSA := dsaTime\<rparr>\<rparr>)"

definition markDatabase ::
  "'t world \<Rightarrow> 't RestoreJob \<Rightarrow> call list \<Rightarrow> string \<Rightarrow> string
     \<Rightarrow> error option \<times> 't RestoreJob \<times> call list" where
  "markDatabase w r h contID dumpLocation =
     (case retrieveDataStateAt w h contID dumpLocation of
        (res, h1) \<Rightarrow>
          (let dataStateAt = (case res of Inl err \<Rightarrow> [] | Inr s \<Rightarrow> s);
               r1 = (if dataStateAt \<noteq> []
                     then r\<lparr>dbMark := (dbMark r)\<lparr>DataStateAt := dataStateAt\<rparr>\<rparr> else r);
               h2 = h1 @ [CreateConfig]
           in case failure w h2 of
                Some err \<Rightarrow>
                  (Some (Wrap err ''failed to create a DBMarker config of the database''), r1, h2)
              | None \<Rightarrow>
                  (let h3 = h2 @ [SaveConfig (dbMark r1)] in
                   case failure w h3 of
                     Some err \<Rightarrow> (Some (Wrap err ''failed to mark the database''), r1, h3)
                   | None \<Rightarrow> (None, updateDataStateAt w r1, h3))))"

definition restoreDB ::
  "'t world \<Rightarrow> 't RestoreJob \<Rightarrow> call list \<Rightarrow> string \<Rightarrow> string \<Rightarrow> DBDefinition
     \<Rightarrow> error option \<times> 't RestoreJob \<times> call list" where
  "restoreDB w r h contID dbName' dbDefinition =
     (case (if Format dbDefinition = plainFormat \<and> dbName dbDefinition = []
            then prepareDB w r h contID dbName' else (None, h)) of
        (Some err, h1) \<Rightarrow>
          (Some (Wrapf err ''failed to prepare database for dump: %s'' dbName'), r, h1)
      | (None, h1) \<Rightarrow>
          (let restoreCommand = buildLogicalRestoreCommand r dbName' dbDefinition;
               h2 = h1 @ [ExecCommandWithOutput contID
                            \<lparr>Tty = True, AttachStdout = False, AttachStderr = False,
                             Cmd = restoreCommand\<rparr>]
           in case failure w h2 of
                Some err \<Rightarrow> (Some (Wrap err ''failed to exec restore command''), r, h2)
              | None \<Rightarrow>
                  (let dumpLocation = getDumpLocation r (Format dbDefinition) dbName' in
                   if Format dbDefinition = plainFormat then (None, r, h2)
                   else
                     (case markDatabase w r h2 contID dumpLocation of
                        (Some err, r1, h3) \<Rightarrow>
                          (Some (Wrap err ''failed to mark the database''), r1, h3)
                      | (None, r1, h3) \<Rightarrow> (None, r1, h3)))))"

text \<open>
  \<open>restoreAll\<close> is the loop of \<open>Run\<close> over the databases, \<open>runContainer\<close> the part of
  \<open>Run\<close> behind the two deferred calls, and \<open>Run\<close> runs these deferred calls after it:
  the container's logs are printed when the job failed, and the container is removed.
\<close>

fun restoreAll ::
  "'t world \<Rightarrow> 't RestoreJob \<Rightarrow> call list \<Rightarrow> string \<Rightarrow> (string \<times> DBDefinition) list
     \<Rightarrow> error option \<times> 't RestoreJob \<times> call list" where
  "restoreAll w r h contID [] = (None, r, h)"
| "restoreAll w r h contID (entry # dbList) =
     (case restoreDB w r h contID (fst entry) (snd entry) of
        (Some err, r1, h1) \<Rightarrow> (Some (Wrap err ''failed to restore a database''), r1, h1)
      | (None, r1, h1) \<Rightarrow> restoreAll w r1 h1 contID dbList)"

definition finishRestore ::
  "'t world \<Rightarrow> 't RestoreJob \<Rightarrow> call list \<Rightarrow> string \<Rightarrow> error option \<times> 't RestoreJob \<times> call list" where
  \<comment> \<open>the end of \<open>Run\<close>: the analyze command and the stop of Postgres\<close>
  "finishRestore w r h contID =
     (let analyzeCmd = buildAnalyzeCommand w (User (Database (globalCfg r)))
                         (Name (Database (globalCfg r))) (ParallelJobs (Options r));
          h1 = h @ [ExecCommand contID
                      \<lparr>Tty = False, AttachStdout = False, AttachStderr = False,
                       Cmd = analyzeCmd\<rparr>]
      in case failure w h1 of
           Some err \<Rightarrow>
             (Some (Wrap err ''failed to recalculate statistics after restore''), r, h1)
         | None \<Rightarrow>
             (let h2 = h1 @ [StopPostgres contID (DataDir (fsPool r))] in
              case failure w h2 of
                Some err \<Rightarrow> (Some (Wrap err ''failed to stop Postgres instance''), r, h2)
              | None \<Rightarrow> (None, r, h2)))"

definition restoreDatabases ::
  "'t world \<Rightarrow> 't RestoreJob \<Rightarrow> call list \<Rightarrow> string \<Rightarrow> error option \<times> 't RestoreJob \<times> call list" where
  \<comment> \<open>the middle of \<open>Run\<close>: the list of databases, the loop over it, then the end\<close>
  "restoreDatabases w r h contID =
     (case getDBList w r h (DumpLocation (Options r)) dumpMetafile contID of
        (Inl err, h1) \<Rightarrow> (Some err, r, h1)
      | (Inr dbList, h1) \<Rightarrow>
          (case restoreAll w r h1 contID (rangeOrder w dbList) of
             (Some err, r1, h2) \<Rightarrow> (Some err, r1, h2)
           | (None, r1, h2) \<Rightarrow> finishRestore w r1 h2 contID))"

definition configureContainer ::
  "'t world \<Rightarrow> 't RestoreJob \<Rightarrow> call list \<Rightarrow> string \<Rightarrow> error option \<times> 't RestoreJob \<times> call list" where
  \<comment> \<open>\<open>Run\<close> from the configuration overrides on\<close>
  "configureContainer w r h contID =
     (if 0 < length (Configs (Options r)) then
        (let h1 = h @ [updateConfigs (DataDir (fsPool r)) contID (Configs (Options r))] in
         case failure w h1 of
           Some err \<Rightarrow> (Some (Wrap err ''failed to update configs''), r, h1)
         | None \<Rightarrow> restoreDatabases w r h1 contID)
      else restoreDatabases w r h contID)"

definition runContainer ::
  "'t world \<Rightarrow> 't RestoreJob \<Rightarrow> call list \<Rightarrow> string \<Rightarrow> error option \<times> 't RestoreJob \<times> call list" where
  "runContainer w r h contID =
     (let h1 = h @ [ContainerStart contID] in
      case failure w h1 of
        Some err \<Rightarrow>
          (Some (Wrapf err ''failed to start container %q'' (restoreContainerName r)), r, h1)
      | None \<Rightarrow>
          (let dataDir = DataDir (fsPool r);
               h2 = h1 @ [CheckContainerReadiness contID]
           in case failure w h2 of
                None \<Rightarrow> configureContainer w r h2 contID
              | Some err \<Rightarrow>
                  if \<not> errors_As_ErrHealthCheck err
                  then (Some (Wrap err ''failed to readiness check''), r, h2)
                  else
                    (let h3 = h2 @ [setupPGData dataDir contID] in
                     case failure w h3 of
                       Some err' \<Rightarrow> (Some (Wrap err' ''failed to set up Postgres data''), r, h3)
                     | None \<Rightarrow> configureContainer w r h3 contID)))"

definition createContainer ::
  "'t world \<Rightarrow> 't RestoreJob \<Rightarrow> call list \<Rightarrow> error option \<times> 't RestoreJob \<times> call list" where
  \<comment> \<open>\<open>Run\<close> from the image pull on\<close>
  "createContainer w r h =
     (let h1 = h @ [PullImage (DockerImage (Options r))] in
      case failure w h1 of
        Some err \<Rightarrow> (Some (Wrap err ''failed to scan image pulling response''), r, h1)
      | None \<Rightarrow>
          (case getHostConfig w r h1 of
             (Inl err, h2) \<Rightarrow> (Some (Wrap err ''failed to build container host config''), r, h2)
           | (Inr hostConfig, h2) \<Rightarrow>
               (let h3 = h2 @ [GeneratePassword] in
                case failure w h3 of
                  Some err \<Rightarrow> (Some (Wrap err ''failed to generate PostgreSQL password''), r, h3)
                | None \<Rightarrow>
                    (let pwd = outString w h3;
                         h4 = h3 @ [ContainerCreate (buildContainerConfig w r pwd) hostConfig
                                      (restoreContainerName r)]
                     in case failure w h4 of
                          Some err \<Rightarrow>
                            (Some (Wrapf err ''failed to create container %q''
                                     (restoreContainerName r)), r, h4)
                        | None \<Rightarrow>
                            (let restoreCont_ID = outString w h4 in
                             case runContainer w r h4 restoreCont_ID of
                               (err, r1, h5) \<Rightarrow>
                                 (err, r1,
                                  (if err \<noteq> None
                                   then h5 @ [PrintContainerLogs (restoreContainerName r)]
                                   else h5) @ [RemoveContainer restoreCont_ID]))))))"

definition Run :: "'t world \<Rightarrow> 't RestoreJob \<Rightarrow> call list \<Rightarrow> error option \<times> 't RestoreJob \<times> call list" where
  "Run w r h =
     (let h1 = h @ [IsEmptyDirectory (DataDir (fsPool r))] in
      case failure w h1 of
        Some err \<Rightarrow>
          (Some (Wrapf err ''failed to explore the data directory %q'' (DataDir (fsPool r))),
           r, h1)
      | None \<Rightarrow>
          (let isEmpty = outBool w h1 in
           if \<not> isEmpty \<and> \<not> ForceInit (Options r)
           then (Some (ErrDataDirNotEmpty (DataDir (fsPool r))), r, h1)
           else createContainer w r h1))"

section \<open>Observations on histories and example inputs\<close>

definition newCalls :: "call list \<Rightarrow> call list \<Rightarrow> call list" where
  \<comment> \<open>the calls of the history \<open>h'\<close> made after the history \<open>h\<close>\<close>
  "newCalls h h' = drop (length h) h'"

fun isContainerCreate :: "call \<Rightarrow> bool" where
  "isContainerCreate (ContainerCreate config hostConfig containerName) = True"
| "isContainerCreate c = False"

fun isMarkCall :: "call \<Rightarrow> bool" where
  \<comment> \<open>the calls that \<open>markDatabase\<close> makes\<close>
  "isMarkCall (ContainerExecCreate contID config) = True"
| "isMarkCall (ContainerExecAttach execID) = True"
| "isMarkCall (DiscoverDataStateAt execID) = True"
| "isMarkCall (CloseAttach execID) = True"
| "isMarkCall CreateConfig = True"
| "isMarkCall (SaveConfig mark) = True"
| "isMarkCall c = False"

text \<open>
  An example job on the instance \<open>i1\<close> with the dump location \<open>/dump\<close>, and a world in
  which the data directory is empty, every call succeeds and no timestamp parses; points
  in time are numbers in the examples.
\<close>

definition exampleOptions :: RestoreOptions where
  "exampleOptions =
     \<lparr>DumpLocation = ''/dump'', DockerImage = ''postgres:13'', ContainerConfig = [],
      Databases = [], ForceInit = False, ParallelJobs = 1, Configs = []\<rparr>"

definition exampleJob :: "nat RestoreJob" where
  "exampleJob =
     \<lparr>name = ''logicalRestore'',
      fsPool = \<lparr>MountDir = ''/var/lib/dblab'', DataDir = ''/var/lib/dblab/data'', DSA = 0\<rparr>,
      globalCfg = \<lparr>InstanceID = ''i1'', Database = \<lparr>User = ''postgres'', Name = ''postgres''\<rparr>\<rparr>,
      dbMark = \<lparr>DataType = LogicalDataType, DataStateAt = []\<rparr>,
      Options = exampleOptions\<rparr>"

definition exampleWorld :: "nat world" where
  "exampleWorld =
     \<lparr>failure = (\<lambda>h. None), outBool = (\<lambda>h. True), outString = (\<lambda>h. ''id''),
      outStrings = (\<lambda>h. []), outFileInfos = (\<lambda>h. []),
      outHostConfig = (\<lambda>h. \<lparr>Mounts = [], Settings = []\<rparr>),
      os_Environ = [''PATH=/usr/bin''],
      health_GetConfig = (\<lambda>user dbname. [''pg_isready'']),
      buildAnalyzeCommand = (\<lambda>user dbname jobs. [''vacuumdb'', ''--analyze'']),
      options_Unmarshal = (\<lambda>cfg opts. Inr opts),
      time_Parse = (\<lambda>s. Inl (External ''cannot parse'')),
      rangeOrder = (\<lambda>dbList. dbList)\<rparr>"

definition extendsWith :: "(call \<Rightarrow> bool) \<Rightarrow> call list \<Rightarrow> call list \<Rightarrow> bool" where
  \<comment> \<open>the history \<open>h'\<close> is \<open>h\<close> followed by calls that all satisfy \<open>P\<close>\<close>
  "extendsWith P h h' = (length h \<le> length h' \<and> take (length h) h' = h
                         \<and> list_all P (drop (length h) h'))"

text \<open>
  A world for a run over the two directory dumps \<open>orders\<close> and \<open>users\<close>: the identifier
  of a metadata command is made from the command, the timestamp read from a dump is
  \<open>20200101000000\<close>, and reading the timestamp of \<open>users\<close> fails.
\<close>

fun staleAnswer :: "call \<Rightarrow> string" where
  "staleAnswer (DiscoverDataStateAt execID) = ''20200101000000''"
| "staleAnswer (ContainerExecCreate contID config) = ''exec: '' @ last (Cmd config)"
| "staleAnswer c = ''id''"

definition staleWorld :: "nat world" where
  "staleWorld =
     exampleWorld
       \<lparr>failure := (\<lambda>h. if last h = DiscoverDataStateAt
                                      ''exec: pg_restore --list /dump/users | head -n 10''
                         then Some (External ''no snapshot line'') else None),
        outString := (\<lambda>h. staleAnswer (last h))\<rparr>"

definition twoDumpsJob :: "nat RestoreJob" where
  "twoDumpsJob =
     exampleJob\<lparr>Options := exampleOptions
       \<lparr>Databases := [(''orders'', \<lparr>Tables = [], Format = directoryFormat, dbName = []\<rparr>),
                      (''users'', \<lparr>Tables = [], Format = directoryFormat, dbName = []\<rparr>)]\<rparr>\<rparr>"

fun isTimestampOrSave :: "call \<Rightarrow> bool" where
  "isTimestampOrSave (DiscoverDataStateAt execID) = True"
| "isTimestampOrSave (SaveConfig mark) = True"
| "isTimestampOrSave c = False"

text \<open>
  Ordinary path elements, for reading the result of \<open>path.Join\<close>: an element that is
  not empty, holds no slash and is neither \<open>.\<close> nor \<open>..\<close>; \<open>slashed\<close> writes a slash
  in front of each element of a list.
\<close>

definition simpleElem :: "string \<Rightarrow> bool" where
  "simpleElem s = (s \<noteq> [] \<and> CHR ''/'' \<notin> set s \<and> s \<noteq> ''.'' \<and> s \<noteq> ''..'')"

fun slashed :: "string list \<Rightarrow> string" where
  "slashed [] = []"
| "slashed (s # ss) = CHR ''/'' # s @ slashed ss"

section \<open>Properties\<close>

subsection \<open>formatDBName\<close>

lemma isWordChar_not_sep: "isWordChar c \<Longrightarrow> c \<noteq> CHR ''/'' \<and> c \<noteq> CHR ''.''"
  by (auto simp: isWordChar_def byte_def)

lemma ReplaceAllString_word: "\<forall>c \<in> set (ReplaceAllString s). isWordChar c"
  by (induction s rule: ReplaceAllString.induct) (auto simp: isWordChar_def byte_def)

lemma ReplaceAllString_fixed: "\<forall>c \<in> set s. isWordChar c \<Longrightarrow> ReplaceAllString s = s"
  by (induction s) auto

lemma ExtFrom_word: "\<forall>c \<in> set s. isWordChar c \<Longrightarrow> i \<le> length s \<Longrightarrow> ExtFrom s i = []"
proof (induction i)
  case 0
  show ?case by simp
next
  case (Suc i)
  then have "isWordChar (s ! i)" by simp
  then have "s ! i \<noteq> CHR ''/'' \<and> s ! i \<noteq> CHR ''.''" by (rule isWordChar_not_sep)
  with Suc show ?case by simp
qed

lemma formatDBName_word: "\<forall>c \<in> set s. isWordChar c \<Longrightarrow> formatDBName s = s"
  by (simp add: formatDBName_def Ext_def ExtFrom_word TrimSuffix_def HasSuffix_def
      ReplaceAllString_fixed)

text \<open>
  C9. \<open>formatDBName\<close> is idempotent: applied to its own output it returns that output,
  for every file name.
\<close>

theorem formatDBName_idempotent: "formatDBName (formatDBName s) = formatDBName s"
proof -
  have "\<forall>c \<in> set (formatDBName s). isWordChar c"
    unfolding formatDBName_def by (rule ReplaceAllString_word)
  then show ?thesis by (rule formatDBName_word)
qed

subsection \<open>The pg\_restore command\<close>

lemma tableArgs_concat: "tableArgs ts = concat (map (\<lambda>t. [''--table'', t]) ts)"
  by (induction ts) simp_all

lemma buildPGRestoreCommand_shape:
  "buildPGRestoreCommand r dumpName d =
     [''pg_restore'', ''--username'', User (Database (globalCfg r)), ''--dbname'', defaults_DBName,
      ''--no-privileges'', ''--no-owner'']
     @ (if dumpName \<noteq> defaults_DBName then [''--create''] else [])
     @ (if ForceInit (Options r) then [''--clean'', ''--if-exists''] else [])
     @ [''--jobs'', Itoa (ParallelJobs (Options r))]
     @ concat (map (\<lambda>t. [''--table'', t]) (Tables d))
     @ [getDumpLocation r (Format d) dumpName]"
  by (simp add: buildPGRestoreCommand_def Let_def tableArgs_concat)

lemma path_Join_example: "path_Join [''/dump'', ''orders''] = ''/dump/orders''"
  by (simp add: path_Join_def Clean_def)

text \<open>
  On an absolute path of ordinary elements \<open>path.Clean\<close> changes nothing, so that
  joining such a dump location with an ordinary name writes the two with a slash between.
\<close>

lemma slashed_start: "slashed ss = [] \<or> hd (slashed ss) = CHR ''/''"
  by (cases ss) simp_all

lemma cleanLoop_elem:
  assumes s: "simpleElem s" and rest: "rest = [] \<or> hd rest = CHR ''/''"
  shows "cleanLoop True out dd (s @ rest) =
           cleanLoop True ((if length out \<noteq> 1 then out @ ''/'' else out) @ s) dd rest"
proof -
  from s obtain c s' where cs: "s = c # s'" by (cases s) (auto simp: simpleElem_def)
  from s cs have c: "c \<noteq> CHR ''/''" and s': "CHR ''/'' \<notin> set s'"
    by (auto simp: simpleElem_def)
  have tw: "takeWhile (\<lambda>x. x \<noteq> CHR ''/'') (s @ rest) = s"
  proof -
    have "takeWhile (\<lambda>x. x \<noteq> CHR ''/'') rest = []"
      using rest by (cases rest) auto
    moreover have "\<And>x. x \<in> set s \<Longrightarrow> x \<noteq> CHR ''/''"
      using s by (auto simp: simpleElem_def)
    ultimately show ?thesis by (simp add: takeWhile_append2)
  qed
  have dw: "dropWhile (\<lambda>x. x \<noteq> CHR ''/'') (s @ rest) = rest"
  proof -
    have "dropWhile (\<lambda>x. x \<noteq> CHR ''/'') rest = rest"
      using rest by (cases rest) auto
    moreover have "\<And>x. x \<in> set s \<Longrightarrow> x \<noteq> CHR ''/''"
      using s by (auto simp: simpleElem_def)
    ultimately show ?thesis by (simp add: dropWhile_append2)
  qed
  have dot: "\<not> (c = CHR ''.'' \<and> (s' @ rest = [] \<or> hd (s' @ rest) = CHR ''/''))"
  proof
    assume a: "c = CHR ''.'' \<and> (s' @ rest = [] \<or> hd (s' @ rest) = CHR ''/'')"
    with s cs have "s' \<noteq> []" by (auto simp: simpleElem_def)
    with a s' show False by (cases s') auto
  qed
  have dotdot: "\<not> (c = CHR ''.'' \<and> hd (s' @ rest) = CHR ''.''
                  \<and> (tl (s' @ rest) = [] \<or> hd (tl (s' @ rest)) = CHR ''/''))"
  proof
    assume a: "c = CHR ''.'' \<and> hd (s' @ rest) = CHR ''.''
                  \<and> (tl (s' @ rest) = [] \<or> hd (tl (s' @ rest)) = CHR ''/'')"
    with s cs have ne: "s' \<noteq> []" by (auto simp: simpleElem_def)
    then obtain d s'' where d: "s' = d # s''" by (cases s') auto
    with a have "d = CHR ''.''" by simp
    with s cs d a have "s'' \<noteq> []" by (auto simp: simpleElem_def)
    then obtain e s3 where "s'' = e # s3" by (cases s'') auto
    with a d s' show False by auto
  qed
  have "cleanLoop True out dd (c # (s' @ rest)) =
      cleanLoop True ((if length out \<noteq> 1 then out @ ''/'' else out)
          @ takeWhile (\<lambda>x. x \<noteq> CHR ''/'') (c # (s' @ rest)))
        dd (dropWhile (\<lambda>x. x \<noteq> CHR ''/'') (c # (s' @ rest)))"
    by (subst cleanLoop.simps(2)) (simp only: c dot dotdot if_False simp_thms)
  then have "cleanLoop True out dd (s @ rest) =
      cleanLoop True ((if length out \<noteq> 1 then out @ ''/'' else out)
          @ takeWhile (\<lambda>x. x \<noteq> CHR ''/'') (s @ rest))
        dd (dropWhile (\<lambda>x. x \<noteq> CHR ''/'') (s @ rest))"
    by (simp only: cs append_Cons)
  then show ?thesis by (simp only: tw dw)
qed

lemma cleanLoop_slashed:
  "\<forall>s \<in> set ss. simpleElem s \<Longrightarrow> 2 \<le> length out \<Longrightarrow>
     cleanLoop True out dd (slashed ss) = out @ slashed ss"
proof (induction ss arbitrary: out)
  case Nil
  show ?case by simp
next
  case (Cons s ss)
  have "cleanLoop True out dd (slashed (s # ss)) = cleanLoop True out dd (s @ slashed ss)"
    by simp
  also have "\<dots> = cleanLoop True ((if length out \<noteq> 1 then out @ ''/'' else out) @ s) dd (slashed ss)"
    using Cons.prems slashed_start [of ss] by (intro cleanLoop_elem) simp_all
  also have "\<dots> = cleanLoop True (out @ ''/'' @ s) dd (slashed ss)"
    using Cons.prems by simp
  also have "\<dots> = (out @ ''/'' @ s) @ slashed ss"
    using Cons.prems by (intro Cons.IH) simp_all
  finally show ?case by simp
qed

lemma Clean_slashed:
  assumes "\<forall>s \<in> set (s1 # ss). simpleElem s"
  shows "Clean (slashed (s1 # ss)) = slashed (s1 # ss)"
proof -
  have s1: "simpleElem s1" and ss: "\<forall>s \<in> set ss. simpleElem s" using assms by simp_all
  from s1 have len: "2 \<le> length (''/'' @ s1)" by (cases s1) (auto simp: simpleElem_def)
  have "cleanLoop True ''/'' 1 (s1 @ slashed ss) = cleanLoop True (''/'' @ s1) 1 (slashed ss)"
    using cleanLoop_elem [OF s1 slashed_start [of ss], where out = "''/''" and dd = 1] by simp
  also have "\<dots> = (''/'' @ s1) @ slashed ss"
    using ss len by (rule cleanLoop_slashed)
  finally show ?thesis by (simp add: Clean_def)
qed

lemma slashed_append: "slashed (ss @ ts) = slashed ss @ slashed ts"
  by (induction ss) simp_all

lemma path_Join_slashed:
  assumes "\<forall>s \<in> set (s1 # ss). simpleElem s" and "simpleElem n"
  shows "path_Join [slashed (s1 # ss), n] = slashed (s1 # ss) @ ''/'' @ n"
proof -
  from assms(2) have n: "n \<noteq> []" by (simp add: simpleElem_def)
  have "joinElems [] [slashed (s1 # ss), n] = slashed (s1 # (ss @ [n]))"
    using n by (simp add: slashed_append)
  moreover have "Clean (slashed (s1 # (ss @ [n]))) = slashed (s1 # (ss @ [n]))"
    using assms by (intro Clean_slashed) auto
  ultimately show ?thesis by (simp add: path_Join_def slashed_append)
qed


text \<open>
  C3. For a definition of custom or directory format, \<open>buildPGRestoreCommand\<close> returns
  exactly \<open>pg_restore --username <user> --dbname <default> --no-privileges --no-owner\<close>,
  then \<open>--create\<close> if and only if the unit name differs from the default database name,
  then \<open>--clean --if-exists\<close> if and only if \<open>ForceInit\<close> is set, then \<open>--jobs\<close> with
  \<open>ParallelJobs\<close> in decimal, then \<open>--table T\<close> for each declared table in order, and
  last the dump path: the dump location itself for the custom format, and the dump
  location joined with the unit name (\<open>path.Join\<close>) for the directory format. For
  an absolute dump location of ordinary elements and an ordinary unit name the joined path
  is the dump location, a slash and the unit name.
\<close>

theorem buildPGRestoreCommand_exact:
  assumes "Format d = customFormat \<or> Format d = directoryFormat"
  shows "buildPGRestoreCommand r dumpName d =
     [''pg_restore'', ''--username'', User (Database (globalCfg r)), ''--dbname'', defaults_DBName,
      ''--no-privileges'', ''--no-owner'']
     @ (if dumpName \<noteq> defaults_DBName then [''--create''] else [])
     @ (if ForceInit (Options r) then [''--clean'', ''--if-exists''] else [])
     @ [''--jobs'', Itoa (ParallelJobs (Options r))]
     @ concat (map (\<lambda>t. [''--table'', t]) (Tables d))
     @ [if Format d = customFormat then DumpLocation (Options r)
        else path_Join [DumpLocation (Options r), dumpName]]
   \<and> (DumpLocation (Options r) = slashed (s1 # ss) \<and> (\<forall>s \<in> set (s1 # ss). simpleElem s)
        \<and> simpleElem dumpName \<longrightarrow>
      path_Join [DumpLocation (Options r), dumpName] = DumpLocation (Options r) @ ''/'' @ dumpName)"
proof (intro conjI impI)
  show "buildPGRestoreCommand r dumpName d =
     [''pg_restore'', ''--username'', User (Database (globalCfg r)), ''--dbname'', defaults_DBName,
      ''--no-privileges'', ''--no-owner'']
     @ (if dumpName \<noteq> defaults_DBName then [''--create''] else [])
     @ (if ForceInit (Options r) then [''--clean'', ''--if-exists''] else [])
     @ [''--jobs'', Itoa (ParallelJobs (Options r))]
     @ concat (map (\<lambda>t. [''--table'', t]) (Tables d))
     @ [if Format d = customFormat then DumpLocation (Options r)
        else path_Join [DumpLocation (Options r), dumpName]]"
    using assms by (simp add: buildPGRestoreCommand_shape getDumpLocation_def)
next
  assume a: "DumpLocation (Options r) = slashed (s1 # ss)
      \<and> (\<forall>s \<in> set (s1 # ss). simpleElem s) \<and> simpleElem dumpName"
  then have "path_Join [slashed (s1 # ss), dumpName] = slashed (s1 # ss) @ ''/'' @ dumpName"
    by (intro path_Join_slashed) blast+
  with a show "path_Join [DumpLocation (Options r), dumpName] =
      DumpLocation (Options r) @ ''/'' @ dumpName"
    by (simp only:)
qed

theorem buildPGRestoreCommand_exact_witness:
  "(Format \<lparr>Tables = [''t1'', ''t2''], Format = directoryFormat, dbName = []\<rparr> = customFormat
      \<or> Format \<lparr>Tables = [''t1'', ''t2''], Format = directoryFormat, dbName = []\<rparr> = directoryFormat)
   \<and> DumpLocation (Options (exampleJob\<lparr>Options := exampleOptions\<lparr>ForceInit := True, ParallelJobs := 4\<rparr>\<rparr>))
       = slashed [''dump'']
   \<and> simpleElem ''dump'' \<and> simpleElem ''orders''
   \<and> buildPGRestoreCommand (exampleJob\<lparr>Options := exampleOptions\<lparr>ForceInit := True, ParallelJobs := 4\<rparr>\<rparr>) ''orders''
        \<lparr>Tables = [''t1'', ''t2''], Format = directoryFormat, dbName = []\<rparr> =
      [''pg_restore'', ''--username'', ''postgres'', ''--dbname'', ''postgres'',
       ''--no-privileges'', ''--no-owner'', ''--create'', ''--clean'', ''--if-exists'',
       ''--jobs'', ''4'', ''--table'', ''t1'', ''--table'', ''t2'', ''/dump/orders'']"
  using buildPGRestoreCommand_exact [of "\<lparr>Tables = [''t1'', ''t2''], Format = directoryFormat, dbName = []\<rparr>"
      "exampleJob\<lparr>Options := exampleOptions\<lparr>ForceInit := True, ParallelJobs := 4\<rparr>\<rparr>" "''orders''"
      "''dump''" "[]"]
  by (simp add: exampleJob_def exampleOptions_def defaults_DBName_def Itoa_def
      customFormat_def directoryFormat_def simpleElem_def)

subsection \<open>The default of ParallelJobs\<close>

text \<open>
  C2, as stated, fails: a job whose \<open>ParallelJobs\<close> is \<open>-1\<close> keeps that value through
  \<open>setDefaults\<close>, and the command carries \<open>--jobs -1\<close>.
\<close>

theorem jobs_negative_counterexample:
  "ParallelJobs (Options (exampleJob\<lparr>Options := exampleOptions\<lparr>ParallelJobs := - 1\<rparr>\<rparr>)) \<le> 0
   \<and> buildPGRestoreCommand (setDefaults (exampleJob\<lparr>Options := exampleOptions\<lparr>ParallelJobs := - 1\<rparr>\<rparr>))
        ''acme'' \<lparr>Tables = [], Format = customFormat, dbName = []\<rparr> =
      [''pg_restore'', ''--username'', ''postgres'', ''--dbname'', ''postgres'',
       ''--no-privileges'', ''--no-owner'', ''--create'', ''--jobs'', ''-1'', ''/dump'']"
  by (simp add: buildPGRestoreCommand_shape setDefaults_def exampleJob_def exampleOptions_def
      defaults_DBName_def Itoa_def getDumpLocation_def)

text \<open>
  C2, amended. For every job whose \<open>ParallelJobs\<close> is zero, after \<open>setDefaults\<close> the
  \<open>--jobs\<close> argument of the pg\_restore command is \<open>1\<close>.
\<close>

theorem jobs_default_for_zero:
  assumes "ParallelJobs (Options r) = 0"
  shows "buildPGRestoreCommand (setDefaults r) dumpName d =
     [''pg_restore'', ''--username'', User (Database (globalCfg r)), ''--dbname'', defaults_DBName,
      ''--no-privileges'', ''--no-owner'']
     @ (if dumpName \<noteq> defaults_DBName then [''--create''] else [])
     @ (if ForceInit (Options r) then [''--clean'', ''--if-exists''] else [])
     @ [''--jobs'', ''1'']
     @ concat (map (\<lambda>t. [''--table'', t]) (Tables d))
     @ [getDumpLocation r (Format d) dumpName]"
  using assms
  by (simp add: buildPGRestoreCommand_shape setDefaults_def defaultParallelJobs_def Itoa_def
      getDumpLocation_def)

theorem jobs_default_for_zero_witness:
  "ParallelJobs (Options (exampleJob\<lparr>Options := exampleOptions\<lparr>ParallelJobs := 0\<rparr>\<rparr>)) = 0
   \<and> buildPGRestoreCommand (setDefaults (exampleJob\<lparr>Options := exampleOptions\<lparr>ParallelJobs := 0\<rparr>\<rparr>))
        ''acme'' \<lparr>Tables = [], Format = customFormat, dbName = []\<rparr> =
      [''pg_restore'', ''--username'', ''postgres'', ''--dbname'', ''postgres'',
       ''--no-privileges'', ''--no-owner'', ''--create'', ''--jobs'', ''1'', ''/dump'']"
  using jobs_default_for_zero [of "exampleJob\<lparr>Options := exampleOptions\<lparr>ParallelJobs := 0\<rparr>\<rparr>"
      "''acme''" "\<lparr>Tables = [], Format = customFormat, dbName = []\<rparr>"]
  by (simp add: exampleJob_def exampleOptions_def defaults_DBName_def getDumpLocation_def)

lemma setDefaults_nonzero: "ParallelJobs (Options r) \<noteq> 0 \<Longrightarrow> setDefaults r = r"
  by (simp add: setDefaults_def)

lemma Reload_setDefaults:
  "options_Unmarshal w cfg (Options r) = Inr opts \<Longrightarrow>
     Reload w r cfg = Inr (setDefaults (r\<lparr>Options := opts\<rparr>))"
  by (simp add: Reload_def)

subsection \<open>Plain dumps that name their database\<close>

text \<open>
  C1, as stated, fails: for a plain dump with the embedded name \<open>payments\<close> the command
  connects to the default database \<open>postgres\<close>, not to \<open>payments\<close>.
\<close>

theorem plain_dbname_counterexample:
  "Format \<lparr>Tables = [], Format = plainFormat, dbName = ''payments''\<rparr> = plainFormat
   \<and> dbName \<lparr>Tables = [], Format = plainFormat, dbName = ''payments''\<rparr> \<noteq> []
   \<and> buildPlainTextCommand exampleJob ''backup.sql''
        \<lparr>Tables = [], Format = plainFormat, dbName = ''payments''\<rparr> =
      [''psql'', ''--username'', ''postgres'', ''--dbname'', ''postgres'',
       ''--file'', ''/dump/backup.sql'']"
  by (simp add: buildPlainTextCommand_def exampleJob_def exampleOptions_def defaults_DBName_def
      getDumpLocation_def plainFormat_def customFormat_def path_Join_def Clean_def)

lemma plain_not_custom: "plainFormat \<noteq> customFormat"
  by (simp add: plainFormat_def customFormat_def)

text \<open>
  C1, amended. For a plain-format definition with a non-empty embedded database name the
  restore command is \<open>psql --username <user> --dbname <default> --file <dump-path>\<close>, where
  \<open>--dbname\<close> is the default database name, and \<open>restoreDB\<close> makes one call only, the
  execution of that command: no step that creates a database runs.
\<close>

theorem plain_embedded_name_command:
  assumes "Format d = plainFormat" and "dbName d \<noteq> []"
  shows "buildLogicalRestoreCommand r dumpName d =
           [''psql'', ''--username'', User (Database (globalCfg r)), ''--dbname'', defaults_DBName,
            ''--file'', path_Join [DumpLocation (Options r), dumpName]]
         \<and> snd (snd (restoreDB w r h contID dumpName d)) =
             h @ [ExecCommandWithOutput contID
                    \<lparr>Tty = True, AttachStdout = False, AttachStderr = False,
                     Cmd = buildLogicalRestoreCommand r dumpName d\<rparr>]"
  using assms
  by (simp add: buildLogicalRestoreCommand_def buildPlainTextCommand_def getDumpLocation_def
      plain_not_custom restoreDB_def Let_def split: option.split)

theorem plain_embedded_name_command_witness:
  "Format \<lparr>Tables = [], Format = plainFormat, dbName = ''payments''\<rparr> = plainFormat
   \<and> dbName \<lparr>Tables = [], Format = plainFormat, dbName = ''payments''\<rparr> \<noteq> []
   \<and> buildLogicalRestoreCommand exampleJob ''backup.sql''
        \<lparr>Tables = [], Format = plainFormat, dbName = ''payments''\<rparr> =
      [''psql'', ''--username'', ''postgres'', ''--dbname'', ''postgres'',
       ''--file'', ''/dump/backup.sql'']
   \<and> snd (snd (restoreDB exampleWorld exampleJob [] ''id'' ''backup.sql''
                  \<lparr>Tables = [], Format = plainFormat, dbName = ''payments''\<rparr>)) =
      [ExecCommandWithOutput ''id''
         \<lparr>Tty = True, AttachStdout = False, AttachStderr = False,
          Cmd = [''psql'', ''--username'', ''postgres'', ''--dbname'', ''postgres'',
                 ''--file'', ''/dump/backup.sql'']\<rparr>]"
  using plain_embedded_name_command [of "\<lparr>Tables = [], Format = plainFormat, dbName = ''payments''\<rparr>"
      exampleJob "''backup.sql''" exampleWorld "[]" "''id''"]
  by (simp add: exampleJob_def exampleOptions_def defaults_DBName_def path_Join_def Clean_def)

subsection \<open>The data directory check\<close>

text \<open>
  C4. When the data directory is not empty and \<open>ForceInit\<close> is false, \<open>Run\<close> fails with
  the error that the data directory is not empty, and the only call it has made is the
  look into the data directory: no image is pulled and no container is created.
\<close>

theorem Run_data_directory_not_empty:
  assumes "failure w (h @ [IsEmptyDirectory (DataDir (fsPool r))]) = None"
    and "\<not> outBool w (h @ [IsEmptyDirectory (DataDir (fsPool r))])"
    and "\<not> ForceInit (Options r)"
  shows "Run w r h = (Some (ErrDataDirNotEmpty (DataDir (fsPool r))), r,
                      h @ [IsEmptyDirectory (DataDir (fsPool r))])"
  using assms by (simp add: Run_def)

theorem Run_data_directory_not_empty_witness:
  "failure (exampleWorld\<lparr>outBool := \<lambda>h. False\<rparr>) ([] @ [IsEmptyDirectory (DataDir (fsPool exampleJob))]) = None
   \<and> \<not> outBool (exampleWorld\<lparr>outBool := \<lambda>h. False\<rparr>) ([] @ [IsEmptyDirectory (DataDir (fsPool exampleJob))])
   \<and> \<not> ForceInit (Options exampleJob)
   \<and> Run (exampleWorld\<lparr>outBool := \<lambda>h. False\<rparr>) exampleJob [] =
       (Some (ErrDataDirNotEmpty ''/var/lib/dblab/data''), exampleJob,
        [IsEmptyDirectory ''/var/lib/dblab/data''])"
  using Run_data_directory_not_empty [of "exampleWorld\<lparr>outBool := \<lambda>h. False\<rparr>" "[]" exampleJob]
  by (simp add: exampleWorld_def exampleJob_def exampleOptions_def)

subsection \<open>The pool's dataStateAt\<close>

text \<open>
  C7. When the \<open>DataStateAt\<close> string of the job's mark does not parse,
  \<open>updateDataStateAt\<close> leaves the job and its pool unchanged; when it parses, the pool's
  \<open>DSA\<close> becomes the parsed time and nothing else changes.
\<close>

theorem updateDataStateAt_parse:
  "(\<forall>err. time_Parse w (DataStateAt (dbMark r)) = Inl err \<longrightarrow> updateDataStateAt w r = r)
   \<and> (\<forall>t. time_Parse w (DataStateAt (dbMark r)) = Inr t \<longrightarrow>
          updateDataStateAt w r = r\<lparr>fsPool := (fsPool r)\<lparr>DSA := t\<rparr>\<rparr>)"
  by (simp add: updateDataStateAt_def)

theorem updateDataStateAt_parse_witness:
  "time_Parse exampleWorld (DataStateAt (dbMark (exampleJob\<lparr>dbMark := \<lparr>DataType = LogicalDataType, DataStateAt = ''yesterday''\<rparr>\<rparr>)))
     = Inl (External ''cannot parse'')
   \<and> updateDataStateAt exampleWorld (exampleJob\<lparr>dbMark := \<lparr>DataType = LogicalDataType, DataStateAt = ''yesterday''\<rparr>\<rparr>)
     = exampleJob\<lparr>dbMark := \<lparr>DataType = LogicalDataType, DataStateAt = ''yesterday''\<rparr>\<rparr>
   \<and> time_Parse (exampleWorld\<lparr>time_Parse := \<lambda>s. Inr 20200101\<rparr>) (DataStateAt (dbMark exampleJob)) = Inr 20200101
   \<and> DSA (fsPool (updateDataStateAt (exampleWorld\<lparr>time_Parse := \<lambda>s. Inr 20200101\<rparr>) exampleJob)) = 20200101"
  using updateDataStateAt_parse [of exampleWorld "exampleJob\<lparr>dbMark := \<lparr>DataType = LogicalDataType, DataStateAt = ''yesterday''\<rparr>\<rparr>"]
    updateDataStateAt_parse [of "exampleWorld\<lparr>time_Parse := \<lambda>s. Inr 20200101\<rparr>" exampleJob]
  by (simp add: exampleWorld_def exampleJob_def)


subsection \<open>The database name of a plain dump\<close>

lemma scanPlain_skip:
  "\<forall>l \<in> set before. \<not> HasPrefix l prefixConnectDB \<and> \<not> HasPrefix l prefixCreateTable \<Longrightarrow>
     scanPlain (before @ rest) = scanPlain rest"
  by (induction before) simp_all

lemma table_not_connect: "HasPrefix l prefixCreateTable \<Longrightarrow> \<not> HasPrefix l prefixConnectDB"
proof
  assume t: "HasPrefix l prefixCreateTable" and c: "HasPrefix l prefixConnectDB"
  from t have "take 1 l = ''C''"
    by (cases l) (simp_all add: HasPrefix_def prefixCreateTable_def)
  moreover from c have "take 1 l = [CHR 0x5C]"
    by (cases l) (simp_all add: HasPrefix_def prefixConnectDB_def)
  ultimately show False by simp
qed

text \<open>
  C6. Let the file open, and let \<open>line\<close> be the first line that begins with
  \<open>\connect\<close> followed by a blank, or with \<open>CREATE TABLE\<close> followed by a blank. If it
  begins with the former and the trimmed rest of the line is not empty, \<open>parsePlainFile\<close>
  returns that trimmed rest; if the trimmed rest is empty, or if the line begins with
  \<open>CREATE TABLE\<close> (so that it comes before any \<open>\connect\<close> line), the result is the
  database-name-not-found error. The same error results when no line of the file begins
  with either prefix.
\<close>

theorem parsePlainFile_result:
  "failure w (h @ [Open dumpPath]) = None \<longrightarrow>
     (outStrings w (h @ [Open dumpPath]) = before @ line # after
        \<and> (\<forall>l \<in> set before. \<not> HasPrefix l prefixConnectDB \<and> \<not> HasPrefix l prefixCreateTable) \<longrightarrow>
          (HasPrefix line prefixConnectDB \<and> TrimSpace (TrimPrefix line prefixConnectDB) \<noteq> [] \<longrightarrow>
             fst (parsePlainFile w h dumpPath) = Inr (TrimSpace (TrimPrefix line prefixConnectDB)))
        \<and> (HasPrefix line prefixConnectDB \<and> TrimSpace (TrimPrefix line prefixConnectDB) = [] \<longrightarrow>
             fst (parsePlainFile w h dumpPath) = Inl ErrDBNameNotFound)
        \<and> (HasPrefix line prefixCreateTable \<longrightarrow>
             fst (parsePlainFile w h dumpPath) = Inl ErrDBNameNotFound))
     \<and> ((\<forall>l \<in> set (outStrings w (h @ [Open dumpPath])).
            \<not> HasPrefix l prefixConnectDB \<and> \<not> HasPrefix l prefixCreateTable) \<longrightarrow>
          fst (parsePlainFile w h dumpPath) = Inl ErrDBNameNotFound)"
proof (intro impI conjI)
  assume ok: "failure w (h @ [Open dumpPath]) = None"
  then have res: "fst (parsePlainFile w h dumpPath) = scanPlain (outStrings w (h @ [Open dumpPath]))"
    by (simp add: parsePlainFile_def Let_def)
  {
    assume "\<forall>l \<in> set (outStrings w (h @ [Open dumpPath])).
              \<not> HasPrefix l prefixConnectDB \<and> \<not> HasPrefix l prefixCreateTable"
    then have "scanPlain (outStrings w (h @ [Open dumpPath]) @ []) = scanPlain []"
      by (rule scanPlain_skip)
    with res show "fst (parsePlainFile w h dumpPath) = Inl ErrDBNameNotFound" by simp
  }
  assume split: "outStrings w (h @ [Open dumpPath]) = before @ line # after
        \<and> (\<forall>l \<in> set before. \<not> HasPrefix l prefixConnectDB \<and> \<not> HasPrefix l prefixCreateTable)"
  then have "scanPlain (before @ line # after) = scanPlain (line # after)"
    by (simp add: scanPlain_skip)
  with res split have at_line: "fst (parsePlainFile w h dumpPath) = scanPlain (line # after)"
    by simp
  {
    assume "HasPrefix line prefixConnectDB \<and> TrimSpace (TrimPrefix line prefixConnectDB) \<noteq> []"
    with at_line
    show "fst (parsePlainFile w h dumpPath) = Inr (TrimSpace (TrimPrefix line prefixConnectDB))"
      by (simp add: Let_def)
  }
  {
    assume "HasPrefix line prefixConnectDB \<and> TrimSpace (TrimPrefix line prefixConnectDB) = []"
    with at_line show "fst (parsePlainFile w h dumpPath) = Inl ErrDBNameNotFound"
      by (simp add: Let_def)
  }
  {
    assume t: "HasPrefix line prefixCreateTable"
    then have "\<not> HasPrefix line prefixConnectDB" by (rule table_not_connect)
    with t at_line show "fst (parsePlainFile w h dumpPath) = Inl ErrDBNameNotFound"
      by simp
  }
qed

lemma TrimSpace_payments: "TrimSpace ''  payments '' = ''payments''"
  by (simp add: TrimSpace_def leadingSpace_def trailingSpace_def unicodeSpaces_def
      HasPrefix_def HasSuffix_def)

lemma TrimSpace_blank: "TrimSpace ''   '' = []"
  by (simp add: TrimSpace_def leadingSpace_def trailingSpace_def unicodeSpaces_def
      HasPrefix_def HasSuffix_def)

theorem parsePlainFile_result_witness:
  "fst (parsePlainFile (exampleWorld\<lparr>outStrings := \<lambda>h. [''SET x = 1;'', CHR 0x5C # ''connect   payments '', ''CREATE TABLE t ();'']\<rparr>)
          [] ''/dump/backup.sql'') = Inr ''payments''
   \<and> fst (parsePlainFile (exampleWorld\<lparr>outStrings := \<lambda>h. [''SET x = 1;'', CHR 0x5C # ''connect    '', CHR 0x5C # ''connect db'']\<rparr>)
          [] ''/dump/backup.sql'') = Inl ErrDBNameNotFound
   \<and> fst (parsePlainFile (exampleWorld\<lparr>outStrings := \<lambda>h. [''SET x = 1;'', ''CREATE TABLE t ();'', CHR 0x5C # ''connect db'']\<rparr>)
          [] ''/dump/backup.sql'') = Inl ErrDBNameNotFound
   \<and> fst (parsePlainFile (exampleWorld\<lparr>outStrings := \<lambda>h. [''SET x = 1;'', ''SELECT 1;'']\<rparr>)
          [] ''/dump/backup.sql'') = Inl ErrDBNameNotFound"
  using
    parsePlainFile_result [of "exampleWorld\<lparr>outStrings := \<lambda>h. [''SET x = 1;'', CHR 0x5C # ''connect   payments '', ''CREATE TABLE t ();'']\<rparr>"
      "[]" "''/dump/backup.sql''" "[''SET x = 1;'']" "CHR 0x5C # ''connect   payments ''" "[''CREATE TABLE t ();'']"]
    parsePlainFile_result [of "exampleWorld\<lparr>outStrings := \<lambda>h. [''SET x = 1;'', CHR 0x5C # ''connect    '', CHR 0x5C # ''connect db'']\<rparr>"
      "[]" "''/dump/backup.sql''" "[''SET x = 1;'']" "CHR 0x5C # ''connect    ''" "[CHR 0x5C # ''connect db'']"]
    parsePlainFile_result [of "exampleWorld\<lparr>outStrings := \<lambda>h. [''SET x = 1;'', ''CREATE TABLE t ();'', CHR 0x5C # ''connect db'']\<rparr>"
      "[]" "''/dump/backup.sql''" "[''SET x = 1;'']" "''CREATE TABLE t ();''" "[CHR 0x5C # ''connect db'']"]
    parsePlainFile_result [of "exampleWorld\<lparr>outStrings := \<lambda>h. [''SET x = 1;'', ''SELECT 1;'']\<rparr>"
      "[]" "''/dump/backup.sql''" "[''SET x = 1;'']" "''SELECT 1;''" "[]"]
  by (simp add: exampleWorld_def HasPrefix_def TrimPrefix_def prefixConnectDB_def
      prefixCreateTable_def TrimSpace_payments TrimSpace_blank)


subsection \<open>Which calls the steps of the job make\<close>

lemma extendsWith_iff:
  "extendsWith P h h' \<longleftrightarrow> (\<exists>new. h' = h @ new \<and> (\<forall>c \<in> set new. P c))"
proof
  assume "extendsWith P h h'"
  then have "h' = h @ drop (length h) h' \<and> (\<forall>c \<in> set (drop (length h) h'). P c)"
    by (metis extendsWith_def append_take_drop_id list_all_iff)
  then show "\<exists>new. h' = h @ new \<and> (\<forall>c \<in> set new. P c)" by blast
next
  assume "\<exists>new. h' = h @ new \<and> (\<forall>c \<in> set new. P c)"
  then show "extendsWith P h h'"
    by (auto simp: extendsWith_def list_all_iff)
qed

lemma extendsWith_refl: "extendsWith P h h"
  by (simp add: extendsWith_iff)

lemma extendsWith_trans:
  "extendsWith P h h1 \<Longrightarrow> extendsWith P h1 h2 \<Longrightarrow> extendsWith P h h2"
  by (auto simp: extendsWith_iff)

lemma extendsWith_snoc: "extendsWith P h h1 \<Longrightarrow> P c \<Longrightarrow> extendsWith P h (h1 @ [c])"
  by (auto simp: extendsWith_iff)

lemma extendsWith_snoc2:
  "extendsWith P h h1 \<Longrightarrow> P c \<Longrightarrow> P c' \<Longrightarrow> extendsWith P h (h1 @ [c, c'])"
  by (auto simp: extendsWith_iff)

lemma retrieveDataStateAt_calls:
  "\<exists>new. snd (retrieveDataStateAt w h contID loc) = h @ new \<and> new \<noteq> []
         \<and> (\<forall>c \<in> set new. isMarkCall c)"
  by (simp add: retrieveDataStateAt_def Let_def split: option.split)

lemma markDatabase_calls:
  "\<exists>new. snd (snd (markDatabase w r h contID loc)) = h @ new \<and> new \<noteq> []
         \<and> (\<forall>c \<in> set new. isMarkCall c)"
proof -
  obtain res h1 where ret: "retrieveDataStateAt w h contID loc = (res, h1)"
    by (cases "retrieveDataStateAt w h contID loc")
  with retrieveDataStateAt_calls [of w h contID loc]
  obtain new where new: "h1 = h @ new" "new \<noteq> []" "\<forall>c \<in> set new. isMarkCall c"
    by auto
  show ?thesis
    using ret new by (auto simp: markDatabase_def Let_def split: option.split)
qed

lemma prepareDB_calls:
  "\<exists>new. snd (prepareDB w r h contID n) = h @ new
         \<and> (\<forall>c \<in> set new. \<not> isMarkCall c \<and> \<not> isContainerCreate c)"
  by (simp add: prepareDB_def Let_def split: option.split)

lemma isMarkCall_not_create: "isMarkCall c \<Longrightarrow> \<not> isContainerCreate c"
  by (cases c) simp_all

lemma markDatabase_no_create:
  "extendsWith (\<lambda>c. \<not> isContainerCreate c) h (snd (snd (markDatabase w r h contID loc)))"
  using markDatabase_calls [of w r h contID loc]
  by (auto simp: extendsWith_iff isMarkCall_not_create)

lemma prepareDB_no_create:
  "extendsWith (\<lambda>c. \<not> isContainerCreate c) h (snd (prepareDB w r h contID n))"
  using prepareDB_calls [of w r h contID n] by (auto simp: extendsWith_iff)

lemma restoreDB_no_create:
  "extendsWith (\<lambda>c. \<not> isContainerCreate c) h (snd (snd (restoreDB w r h contID n d)))"
proof -
  let ?P = "\<lambda>c. \<not> isContainerCreate c"
  obtain e1 h1 where prep:
    "(if Format d = plainFormat \<and> dbName d = [] then prepareDB w r h contID n else (None, h))
       = (e1, h1)"
    by (cases "if Format d = plainFormat \<and> dbName d = [] then prepareDB w r h contID n else (None, h)")
  have h1: "extendsWith ?P h h1"
    using prep prepareDB_no_create [of h w r contID n]
    by (auto simp: extendsWith_refl split: if_splits)
  let ?h2 = "h1 @ [ExecCommandWithOutput contID
                     \<lparr>Tty = True, AttachStdout = False, AttachStderr = False,
                      Cmd = buildLogicalRestoreCommand r n d\<rparr>]"
  have h2: "extendsWith ?P h ?h2"
    using h1 by (rule extendsWith_snoc) simp
  have h3: "extendsWith ?P h
              (snd (snd (markDatabase w r ?h2 contID (getDumpLocation r (Format d) n))))"
    using h2 markDatabase_no_create by (rule extendsWith_trans)
  show ?thesis
    using prep h1 h2 h3
    by (cases "markDatabase w r ?h2 contID (getDumpLocation r (Format d) n)")
      (auto simp: restoreDB_def Let_def split: option.split)
qed

lemma restoreAll_no_create:
  "extendsWith (\<lambda>c. \<not> isContainerCreate c) h (snd (snd (restoreAll w r h contID dbList)))"
proof (induction dbList arbitrary: r h)
  case Nil
  show ?case by (simp add: extendsWith_refl)
next
  case (Cons entry dbList)
  obtain e r1 h1 where step: "restoreDB w r h contID (fst entry) (snd entry) = (e, r1, h1)"
    by (cases "restoreDB w r h contID (fst entry) (snd entry)")
  have h1: "extendsWith (\<lambda>c. \<not> isContainerCreate c) h h1"
    using restoreDB_no_create [of h w r contID "fst entry" "snd entry"] step by simp
  show ?case
  proof (cases e)
    case None
    with step h1 Cons.IH [of h1 r1] show ?thesis
      by (auto intro: extendsWith_trans)
  next
    case (Some err)
    with step h1 show ?thesis by simp
  qed
qed

lemma parsePlainFile_no_create:
  "extendsWith (\<lambda>c. \<not> isContainerCreate c) h (snd (parsePlainFile w h dumpPath))"
  by (simp add: parsePlainFile_def Let_def extendsWith_iff split: option.split)

lemma discoverEntries_no_create:
  "extendsWith (\<lambda>c. \<not> isContainerCreate c) h (snd (discoverEntries w h loc infos dbList))"
proof (induction infos arbitrary: h dbList)
  case Nil
  show ?case by (simp add: extendsWith_refl)
next
  case (Cons info infos)
  show ?case
  proof (cases "info_IsDir info")
    case True
    with Cons.IH show ?thesis by simp
  next
    case False
    obtain res h1 where p: "parsePlainFile w h (path_Join [loc, info_Name info]) = (res, h1)"
      by (cases "parsePlainFile w h (path_Join [loc, info_Name info])")
    have h1: "extendsWith (\<lambda>c. \<not> isContainerCreate c) h h1"
      using parsePlainFile_no_create [of h w "path_Join [loc, info_Name info]"] p by simp
    have "\<And>dbList'. extendsWith (\<lambda>c. \<not> isContainerCreate c) h
             (snd (discoverEntries w h1 loc infos dbList'))"
      using h1 Cons.IH by (rule extendsWith_trans)
    with False p h1 show ?thesis
      by (auto split: sum.split)
  qed
qed

lemma discoverDumpLocation_no_create:
  "extendsWith (\<lambda>c. \<not> isContainerCreate c) h (snd (discoverDumpLocation w h loc))"
proof (cases "failure w (h @ [ReadDir loc])")
  case None
  have "extendsWith (\<lambda>c. \<not> isContainerCreate c) h (h @ [ReadDir loc])"
    by (simp add: extendsWith_iff)
  then have "extendsWith (\<lambda>c. \<not> isContainerCreate c) h
      (snd (discoverEntries w (h @ [ReadDir loc]) loc (outFileInfos w (h @ [ReadDir loc])) []))"
    using discoverEntries_no_create by (rule extendsWith_trans)
  with None show ?thesis by (simp add: discoverDumpLocation_def Let_def)
next
  case (Some err)
  then show ?thesis by (simp add: discoverDumpLocation_def Let_def extendsWith_iff)
qed

lemma discoverCustomDump_no_create:
  "extendsWith (\<lambda>c. \<not> isContainerCreate c) h (snd (discoverCustomDump w h contID p))"
  by (simp add: discoverCustomDump_def Let_def extendsWith_iff split: option.split)

lemma getDBList_no_create:
  "extendsWith (\<lambda>c. \<not> isContainerCreate c) h (snd (getDBList w r h loc meta contID))"
proof (cases "0 < length (Databases (Options r))")
  case True
  then show ?thesis by (simp add: getDBList_def extendsWith_refl)
next
  case False
  let ?h1 = "h @ [Stat (path_Join [loc, meta])]"
  have h1: "extendsWith (\<lambda>c. \<not> isContainerCreate c) h ?h1"
    by (simp add: extendsWith_iff)
  have a: "extendsWith (\<lambda>c. \<not> isContainerCreate c) h
             (snd (discoverCustomDump w ?h1 contID (path_Join [loc, meta])))"
    using h1 discoverCustomDump_no_create by (rule extendsWith_trans)
  have b: "extendsWith (\<lambda>c. \<not> isContainerCreate c) h (snd (discoverDumpLocation w ?h1 loc))"
    using h1 discoverDumpLocation_no_create by (rule extendsWith_trans)
  from False a b h1 show ?thesis
    by (auto simp: getDBList_def Let_def split: option.split)
qed

lemma finishRestore_no_create:
  "extendsWith (\<lambda>c. \<not> isContainerCreate c) h (snd (snd (finishRestore w r h contID)))"
  by (simp add: finishRestore_def Let_def extendsWith_iff split: option.split)

lemma restoreDatabases_no_create:
  "extendsWith (\<lambda>c. \<not> isContainerCreate c) h (snd (snd (restoreDatabases w r h contID)))"
proof -
  let ?P = "\<lambda>c. \<not> isContainerCreate c"
  obtain res h1 where g: "getDBList w r h (DumpLocation (Options r)) dumpMetafile contID = (res, h1)"
    by (cases "getDBList w r h (DumpLocation (Options r)) dumpMetafile contID")
  have h1: "extendsWith ?P h h1"
    using getDBList_no_create [of h w r "DumpLocation (Options r)" dumpMetafile contID] g by simp
  show ?thesis
  proof (cases res)
    case (Inl err)
    with g h1 show ?thesis by (simp add: restoreDatabases_def)
  next
    case (Inr dbList)
    obtain e r1 h2 where a: "restoreAll w r h1 contID (rangeOrder w dbList) = (e, r1, h2)"
      by (cases "restoreAll w r h1 contID (rangeOrder w dbList)")
    have "extendsWith ?P h1 h2"
      using restoreAll_no_create [of h1 w r contID "rangeOrder w dbList"] a by simp
    with h1 have h2: "extendsWith ?P h h2" by (rule extendsWith_trans)
    then have "extendsWith ?P h (snd (snd (finishRestore w r1 h2 contID)))"
      using finishRestore_no_create by (rule extendsWith_trans)
    with g Inr a h2 show ?thesis
      by (auto simp: restoreDatabases_def split: option.split)
  qed
qed

lemma configureContainer_no_create:
  "extendsWith (\<lambda>c. \<not> isContainerCreate c) h (snd (snd (configureContainer w r h contID)))"
proof -
  let ?P = "\<lambda>c. \<not> isContainerCreate c"
  let ?h1 = "h @ [updateConfigs (DataDir (fsPool r)) contID (Configs (Options r))]"
  have h1: "extendsWith ?P h ?h1" by (simp add: extendsWith_iff)
  then have "extendsWith ?P h (snd (snd (restoreDatabases w r ?h1 contID)))"
    using restoreDatabases_no_create by (rule extendsWith_trans)
  with h1 restoreDatabases_no_create [of h w r contID] show ?thesis
    by (auto simp: configureContainer_def Let_def split: option.split)
qed

lemma runContainer_no_create:
  "extendsWith (\<lambda>c. \<not> isContainerCreate c) h (snd (snd (runContainer w r h contID)))"
proof -
  let ?P = "\<lambda>c. \<not> isContainerCreate c"
  let ?h1 = "h @ [ContainerStart contID]"
  let ?h2 = "?h1 @ [CheckContainerReadiness contID]"
  let ?h3 = "?h2 @ [setupPGData (DataDir (fsPool r)) contID]"
  have h1: "extendsWith ?P h ?h1" by (simp add: extendsWith_iff)
  have h2: "extendsWith ?P h ?h2" by (simp add: extendsWith_iff)
  have h3: "extendsWith ?P h ?h3" by (simp add: extendsWith_iff)
  have c2: "extendsWith ?P h (snd (snd (configureContainer w r ?h2 contID)))"
    using h2 configureContainer_no_create by (rule extendsWith_trans)
  have c3: "extendsWith ?P h (snd (snd (configureContainer w r ?h3 contID)))"
    using h3 configureContainer_no_create by (rule extendsWith_trans)
  from h1 h2 h3 c2 c3 show ?thesis
    by (auto simp: runContainer_def Let_def split: option.split)
qed


subsection \<open>Marking a database\<close>

lemma restoreDB_mark_calls:
  "((\<exists>c \<in> set (newCalls h (snd (snd (restoreDB w r h contID n d)))). isMarkCall c)
      \<longleftrightarrow> (Format d \<noteq> plainFormat
           \<and> failure w (h @ [ExecCommandWithOutput contID
                  \<lparr>Tty = True, AttachStdout = False, AttachStderr = False,
                   Cmd = buildLogicalRestoreCommand r n d\<rparr>]) = None))
   \<and> (Format d \<noteq> plainFormat
        \<and> failure w (h @ [ExecCommandWithOutput contID
               \<lparr>Tty = True, AttachStdout = False, AttachStderr = False,
                Cmd = buildLogicalRestoreCommand r n d\<rparr>]) = None
      \<longrightarrow> (\<exists>new. snd (snd (restoreDB w r h contID n d)) =
                   h @ ExecCommandWithOutput contID
                         \<lparr>Tty = True, AttachStdout = False, AttachStderr = False,
                          Cmd = buildLogicalRestoreCommand r n d\<rparr> # new
                 \<and> new \<noteq> [] \<and> (\<forall>c \<in> set new. isMarkCall c)))"
proof -
  let ?exec = "ExecCommandWithOutput contID
                 \<lparr>Tty = True, AttachStdout = False, AttachStderr = False,
                  Cmd = buildLogicalRestoreCommand r n d\<rparr>"
  let ?H = "snd (snd (restoreDB w r h contID n d))"
  show ?thesis
  proof (cases "Format d = plainFormat")
    case True
    obtain new where new: "snd (prepareDB w r h contID n) = h @ new"
        "\<forall>c \<in> set new. \<not> isMarkCall c \<and> \<not> isContainerCreate c"
      using prepareDB_calls [of w r h contID n] by auto
    have "\<forall>c \<in> set (newCalls h ?H). \<not> isMarkCall c"
    proof (cases "dbName d = []")
      case True
      with \<open>Format d = plainFormat\<close> new show ?thesis
        by (cases "prepareDB w r h contID n")
          (auto simp: restoreDB_def newCalls_def Let_def split: option.split)
    next
      case False
      with \<open>Format d = plainFormat\<close> show ?thesis
        by (auto simp: restoreDB_def newCalls_def Let_def split: option.split)
    qed
    with True show ?thesis by auto
  next
    case False
    show ?thesis
    proof (cases "failure w (h @ [?exec])")
      case (Some err)
      with False have "?H = h @ [?exec]"
        by (simp add: restoreDB_def Let_def)
      with False Some show ?thesis by (simp add: newCalls_def)
    next
      case None
      obtain new where new:
          "snd (snd (markDatabase w r (h @ [?exec]) contID (getDumpLocation r (Format d) n)))
             = (h @ [?exec]) @ new" "new \<noteq> []" "\<forall>c \<in> set new. isMarkCall c"
        using markDatabase_calls [of w r "h @ [?exec]" contID "getDumpLocation r (Format d) n"]
        by auto
      from False None have "?H =
          snd (snd (markDatabase w r (h @ [?exec]) contID (getDumpLocation r (Format d) n)))"
        by (cases "markDatabase w r (h @ [?exec]) contID (getDumpLocation r (Format d) n)")
          (auto simp: restoreDB_def Let_def split: option.split)
      with new have H: "?H = h @ ?exec # new" by simp
      from new obtain c where "c \<in> set new" "isMarkCall c" by (cases new) auto
      with H have "\<exists>c \<in> set (newCalls h ?H). isMarkCall c"
        by (auto simp: newCalls_def)
      with False None H new show ?thesis by auto
    qed
  qed
qed

text \<open>
  C5. \<open>restoreDB\<close> makes calls of \<open>markDatabase\<close> exactly when the format of the
  definition is not plain and the execution of the restore command succeeded; all these
  calls come after the call that runs the restore command; and a mark is saved
  (\<open>SaveConfig\<close>) only in that case, so never for a plain dump and never when the
  restore command failed.
\<close>

theorem restoreDB_marks_after_success:
  "((\<exists>c \<in> set (newCalls h (snd (snd (restoreDB w r h contID n d)))). isMarkCall c)
      \<longleftrightarrow> (Format d \<noteq> plainFormat
           \<and> failure w (h @ [ExecCommandWithOutput contID
                  \<lparr>Tty = True, AttachStdout = False, AttachStderr = False,
                   Cmd = buildLogicalRestoreCommand r n d\<rparr>]) = None))
   \<and> (Format d \<noteq> plainFormat
        \<and> failure w (h @ [ExecCommandWithOutput contID
               \<lparr>Tty = True, AttachStdout = False, AttachStderr = False,
                Cmd = buildLogicalRestoreCommand r n d\<rparr>]) = None
      \<longrightarrow> (\<exists>new. snd (snd (restoreDB w r h contID n d)) =
                   h @ ExecCommandWithOutput contID
                         \<lparr>Tty = True, AttachStdout = False, AttachStderr = False,
                          Cmd = buildLogicalRestoreCommand r n d\<rparr> # new
                 \<and> new \<noteq> [] \<and> (\<forall>c \<in> set new. isMarkCall c)))
   \<and> (SaveConfig mark \<in> set (newCalls h (snd (snd (restoreDB w r h contID n d))))
      \<longrightarrow> Format d \<noteq> plainFormat
          \<and> failure w (h @ [ExecCommandWithOutput contID
               \<lparr>Tty = True, AttachStdout = False, AttachStderr = False,
                Cmd = buildLogicalRestoreCommand r n d\<rparr>]) = None)"
proof -
  have "isMarkCall (SaveConfig mark)" by simp
  then have "SaveConfig mark \<in> set (newCalls h (snd (snd (restoreDB w r h contID n d))))
      \<Longrightarrow> \<exists>c \<in> set (newCalls h (snd (snd (restoreDB w r h contID n d)))). isMarkCall c"
    by blast
  with restoreDB_mark_calls [of h w r contID n d] show ?thesis by blast
qed

lemma plain_not_directory: "plainFormat \<noteq> directoryFormat"
  by (simp add: plainFormat_def directoryFormat_def)

theorem restoreDB_marks_after_success_witness:
  "(\<exists>c \<in> set (newCalls [] (snd (snd (restoreDB exampleWorld exampleJob [] ''id'' ''orders''
        \<lparr>Tables = [], Format = directoryFormat, dbName = []\<rparr>)))). isMarkCall c)
   \<and> \<not> (\<exists>c \<in> set (newCalls [] (snd (snd (restoreDB exampleWorld exampleJob [] ''id'' ''backup.sql''
        \<lparr>Tables = [], Format = plainFormat, dbName = []\<rparr>)))). isMarkCall c)
   \<and> \<not> (\<exists>c \<in> set (newCalls [] (snd (snd (restoreDB
        (exampleWorld\<lparr>failure := \<lambda>h. Some (External ''exit status 1'')\<rparr>) exampleJob [] ''id'' ''orders''
        \<lparr>Tables = [], Format = directoryFormat, dbName = []\<rparr>)))). isMarkCall c)"
  using
    restoreDB_marks_after_success [of "[]" exampleWorld exampleJob "''id''" "''orders''"
      "\<lparr>Tables = [], Format = directoryFormat, dbName = []\<rparr>" "dbMark exampleJob"]
    restoreDB_marks_after_success [of "[]" exampleWorld exampleJob "''id''" "''backup.sql''"
      "\<lparr>Tables = [], Format = plainFormat, dbName = []\<rparr>" "dbMark exampleJob"]
    restoreDB_marks_after_success [of "[]" "exampleWorld\<lparr>failure := \<lambda>h. Some (External ''exit status 1'')\<rparr>"
      exampleJob "''id''" "''orders''" "\<lparr>Tables = [], Format = directoryFormat, dbName = []\<rparr>"
      "dbMark exampleJob"]
  by (simp add: exampleWorld_def plain_not_directory plain_not_directory [symmetric])

subsection \<open>The restore container\<close>

lemma getHostConfig_hist:
  "snd (getHostConfig w r h) =
     h @ [BuildHostConfig (DataDir (fsPool r)) (ContainerConfig (Options r))]"
  by (simp add: getHostConfig_def Let_def split: option.split)

lemma createContainer_calls:
  "(\<exists>new. snd (snd (createContainer w r h)) = h @ new \<and> (\<forall>c \<in> set new. \<not> isContainerCreate c))
   \<or> (\<exists>mid hostConfig rest.
        snd (snd (createContainer w r h)) =
          h @ mid @ [GeneratePassword,
                     ContainerCreate (buildContainerConfig w r (outString w (h @ mid @ [GeneratePassword])))
                       hostConfig (restoreContainerName r)] @ rest
        \<and> (\<forall>c \<in> set mid. \<not> isContainerCreate c) \<and> (\<forall>c \<in> set rest. \<not> isContainerCreate c))"
proof -
  let ?h1 = "h @ [PullImage (DockerImage (Options r))]"
  let ?mid = "[PullImage (DockerImage (Options r)),
               BuildHostConfig (DataDir (fsPool r)) (ContainerConfig (Options r))]"
  obtain res h2 where hc: "getHostConfig w r ?h1 = (res, h2)"
    by (cases "getHostConfig w r ?h1")
  with getHostConfig_hist [of w r ?h1] have h2: "h2 = h @ ?mid" by simp
  let ?h3 = "h2 @ [GeneratePassword]"
  show ?thesis
  proof (cases "failure w ?h1")
    case (Some err)
    then show ?thesis by (simp add: createContainer_def Let_def)
  next
    case pull: None
    show ?thesis
    proof (cases res)
      case (Inl err)
      with pull hc h2 show ?thesis by (simp add: createContainer_def Let_def)
    next
      case (Inr hostConfig)
      show ?thesis
      proof (cases "failure w ?h3")
        case (Some err)
        with pull hc h2 Inr show ?thesis by (simp add: createContainer_def Let_def)
      next
        case pw: None
        let ?create = "ContainerCreate (buildContainerConfig w r (outString w ?h3)) hostConfig
                         (restoreContainerName r)"
        let ?h4 = "?h3 @ [?create]"
        show ?thesis
        proof (cases "failure w ?h4")
          case (Some err)
          with pull hc Inr pw have "snd (snd (createContainer w r h)) = ?h4"
            by (simp add: createContainer_def Let_def)
          with h2 have "snd (snd (createContainer w r h)) =
              h @ ?mid @ [GeneratePassword,
                ContainerCreate (buildContainerConfig w r (outString w (h @ ?mid @ [GeneratePassword])))
                  hostConfig (restoreContainerName r)] @ []"
            by simp
          then show ?thesis
            by - (rule disjI2, rule exI [of _ ?mid], rule exI [of _ hostConfig],
                rule exI [of _ "[]"], simp)
        next
          case None
          obtain e r1 h5 where run: "runContainer w r ?h4 (outString w ?h4) = (e, r1, h5)"
            by (cases "runContainer w r ?h4 (outString w ?h4)")
          with runContainer_no_create [of ?h4 w r "outString w ?h4"]
          obtain new where new: "h5 = ?h4 @ new" "\<forall>c \<in> set new. \<not> isContainerCreate c"
            by (auto simp: extendsWith_iff)
          let ?rest = "new @ (if e \<noteq> None then [PrintContainerLogs (restoreContainerName r)] else [])
                         @ [RemoveContainer (outString w ?h4)]"
          from pull hc Inr pw None run new
          have "snd (snd (createContainer w r h)) = ?h4 @ ?rest"
            by (simp add: createContainer_def Let_def)
          with h2 have "snd (snd (createContainer w r h)) =
              h @ ?mid @ [GeneratePassword,
                ContainerCreate (buildContainerConfig w r (outString w (h @ ?mid @ [GeneratePassword])))
                  hostConfig (restoreContainerName r)] @ ?rest"
            by simp
          moreover from new(2) have "\<forall>c \<in> set ?rest. \<not> isContainerCreate c" by auto
          ultimately show ?thesis
            by - (rule disjI2, rule exI [of _ ?mid], rule exI [of _ hostConfig],
                rule exI [of _ ?rest], simp)
        qed
      qed
    qed
  qed
qed


text \<open>
  C8, as stated, fails on the environment: the configuration built for the container
  holds the environment of the job's own process in front of \<open>PGDATA\<close> and
  \<open>POSTGRES_PASSWORD\<close>, not these two variables alone.
\<close>

theorem container_env_counterexample:
  "Env (buildContainerConfig exampleWorld exampleJob ''secret'') =
     [''PATH=/usr/bin'', ''PGDATA=/var/lib/dblab/data'', ''POSTGRES_PASSWORD=secret'']
   \<and> Env (buildContainerConfig exampleWorld exampleJob ''secret'') \<noteq>
     [''PGDATA=/var/lib/dblab/data'', ''POSTGRES_PASSWORD=secret'']"
  by (simp add: buildContainerConfig_def exampleWorld_def exampleJob_def)

text \<open>
  C8, amended. Every container that \<open>Run\<close> creates has the name \<open>dblab_lr_\<close>
  followed by the instance ID, the labels \<open>dblab_control = restore\<close> and
  \<open>dblab_instance_id\<close> with the instance ID, and as its environment the environment
  of the job's process followed by \<open>PGDATA\<close> with the data directory and
  \<open>POSTGRES_PASSWORD\<close> with the password generated by the call just before the
  creation.
\<close>

theorem Run_container_create:
  assumes "ContainerCreate config hostConfig containerName
             \<in> set (newCalls h (snd (snd (Run w r h))))"
  shows "containerName = ''dblab_lr_'' @ InstanceID (globalCfg r)
     \<and> Labels config = [(''dblab_control'', ''restore''),
                        (''dblab_instance_id'', InstanceID (globalCfg r))]
     \<and> (\<exists>before rest.
          snd (snd (Run w r h)) =
            before @ [GeneratePassword, ContainerCreate config hostConfig containerName] @ rest
          \<and> Env config = os_Environ w
               @ [''PGDATA='' @ DataDir (fsPool r),
                  ''POSTGRES_PASSWORD='' @ outString w (before @ [GeneratePassword])])"
proof -
  let ?h1 = "h @ [IsEmptyDirectory (DataDir (fsPool r))]"
  let ?H = "snd (snd (Run w r h))"
  have "?H = ?h1 \<or> ?H = snd (snd (createContainer w r ?h1))"
    by (simp add: Run_def Let_def split: option.split)
  then show ?thesis
  proof
    assume "?H = ?h1"
    with assms show ?thesis by (simp add: newCalls_def)
  next
    assume H: "?H = snd (snd (createContainer w r ?h1))"
    from createContainer_calls [of w r ?h1] show ?thesis
    proof (elim disjE exE conjE)
      fix new
      assume "snd (snd (createContainer w r ?h1)) = ?h1 @ new"
        and "\<forall>c \<in> set new. \<not> isContainerCreate c"
      with H assms show ?thesis by (auto simp: newCalls_def)
    next
      fix mid hc rest
      let ?pw = "outString w (?h1 @ mid @ [GeneratePassword])"
      let ?create = "ContainerCreate (buildContainerConfig w r ?pw) hc (restoreContainerName r)"
      assume eq: "snd (snd (createContainer w r ?h1)) = ?h1 @ mid @ [GeneratePassword, ?create] @ rest"
        and mid: "\<forall>c \<in> set mid. \<not> isContainerCreate c"
        and rest: "\<forall>c \<in> set rest. \<not> isContainerCreate c"
      from H eq assms mid rest
      have same: "ContainerCreate config hostConfig containerName = ?create"
        by (auto simp: newCalls_def)
      from H eq same have "?H = (?h1 @ mid) @ [GeneratePassword,
          ContainerCreate config hostConfig containerName] @ rest"
        by simp
      moreover from same have "Env config = os_Environ w
          @ [''PGDATA='' @ DataDir (fsPool r),
             ''POSTGRES_PASSWORD='' @ outString w ((?h1 @ mid) @ [GeneratePassword])]"
        by (simp add: buildContainerConfig_def)
      ultimately have "\<exists>before rest.
          ?H = before @ [GeneratePassword, ContainerCreate config hostConfig containerName] @ rest
          \<and> Env config = os_Environ w
               @ [''PGDATA='' @ DataDir (fsPool r),
                  ''POSTGRES_PASSWORD='' @ outString w (before @ [GeneratePassword])]"
        by blast
      moreover from same have "containerName = ''dblab_lr_'' @ InstanceID (globalCfg r)"
        by (simp add: restoreContainerName_def restoreContainerPrefix_def)
      moreover from same have "Labels config =
          [(''dblab_control'', ''restore''), (''dblab_instance_id'', InstanceID (globalCfg r))]"
        by (simp add: buildContainerConfig_def DBLabControlLabel_def DBLabRestoreLabel_def
            DBLabInstanceIDLabel_def)
      ultimately show ?thesis by blast
    qed
  qed
qed

lemma TrimSpace_id: "TrimSpace ''id'' = ''id''"
  by (simp add: TrimSpace_def leadingSpace_def trailingSpace_def unicodeSpaces_def
      HasPrefix_def HasSuffix_def)

lemma path_Join_toc: "path_Join [''/dump'', ''toc.dat''] = ''/dump/toc.dat''"
  by (simp add: path_Join_def Clean_def)

lemma path_Join_users: "path_Join [''/dump'', ''users''] = ''/dump/users''"
  by (simp add: path_Join_def Clean_def)

text \<open>
  The whole run of the example job over a custom dump, in the world where every call
  succeeds: the calls in their order.
\<close>

lemma Run_example:
  "snd (snd (Run exampleWorld exampleJob [])) =
     [IsEmptyDirectory ''/var/lib/dblab/data'', PullImage ''postgres:13'',
      BuildHostConfig ''/var/lib/dblab/data'' [], GeneratePassword,
      ContainerCreate
        \<lparr>Labels = [(''dblab_control'', ''restore''), (''dblab_instance_id'', ''i1'')],
         Env = [''PATH=/usr/bin'', ''PGDATA=/var/lib/dblab/data'', ''POSTGRES_PASSWORD=id''],
         Image = ''postgres:13'', Healthcheck = [''pg_isready'']\<rparr>
        \<lparr>Mounts = [], Settings = []\<rparr> ''dblab_lr_i1'',
      ContainerStart ''id'', CheckContainerReadiness ''id'', Stat ''/dump/toc.dat'',
      ExecCommandWithOutput ''id''
        \<lparr>Tty = False, AttachStdout = False, AttachStderr = False,
         Cmd = [''bash'', ''-c'',
                ''pg_restore --list /dump/toc.dat | grep dbname: | tr -d '' @ [CHR 0x27]
                  @ ''[;]'' @ [CHR 0x27]]\<rparr>,
      ExecCommandWithOutput ''id''
        \<lparr>Tty = True, AttachStdout = False, AttachStderr = False,
         Cmd = [''pg_restore'', ''--username'', ''postgres'', ''--dbname'', ''postgres'',
                ''--no-privileges'', ''--no-owner'', ''--create'', ''--jobs'', ''1'', ''/dump'']\<rparr>,
      ContainerExecCreate ''id''
        \<lparr>Tty = False, AttachStdout = True, AttachStderr = True,
         Cmd = [''sh'', ''-c'', ''pg_restore --list /dump | head -n 10'']\<rparr>,
      ContainerExecAttach ''id'', DiscoverDataStateAt ''id'', CloseAttach ''id'', CreateConfig,
      SaveConfig \<lparr>DataType = ''logical'', DataStateAt = ''id''\<rparr>,
      ExecCommand ''id''
        \<lparr>Tty = False, AttachStdout = False, AttachStderr = False,
         Cmd = [''vacuumdb'', ''--analyze'']\<rparr>,
      StopPostgres ''id'' ''/var/lib/dblab/data'', RemoveContainer ''id'']"
  by (simp add: Run_def createContainer_def runContainer_def configureContainer_def
      restoreDatabases_def getDBList_def discoverCustomDump_def restoreDB_def markDatabase_def
      retrieveDataStateAt_def updateDataStateAt_def finishRestore_def getHostConfig_def
      buildContainerConfig_def buildLogicalRestoreCommand_def buildPGRestoreCommand_def
      getDumpLocation_def restoreContainerName_def restoreContainerPrefix_def
      exampleWorld_def exampleJob_def exampleOptions_def Let_def HasPrefix_def TrimPrefix_def
      prefixDBName_def dumpMetafile_def path_Join_toc TrimSpace_id customFormat_def
      plainFormat_def defaults_DBName_def Itoa_def DBLabControlLabel_def DBLabRestoreLabel_def
      DBLabInstanceIDLabel_def LogicalDataType_def)

theorem Run_container_create_witness:
  "ContainerCreate
     \<lparr>Labels = [(''dblab_control'', ''restore''), (''dblab_instance_id'', ''i1'')],
      Env = [''PATH=/usr/bin'', ''PGDATA=/var/lib/dblab/data'', ''POSTGRES_PASSWORD=id''],
      Image = ''postgres:13'', Healthcheck = [''pg_isready'']\<rparr>
     \<lparr>Mounts = [], Settings = []\<rparr> ''dblab_lr_i1''
     \<in> set (newCalls [] (snd (snd (Run exampleWorld exampleJob []))))
   \<and> (''dblab_lr_i1'' = ''dblab_lr_'' @ InstanceID (globalCfg exampleJob)
      \<and> Labels \<lparr>Labels = [(''dblab_control'', ''restore''), (''dblab_instance_id'', ''i1'')],
            Env = [''PATH=/usr/bin'', ''PGDATA=/var/lib/dblab/data'', ''POSTGRES_PASSWORD=id''],
            Image = ''postgres:13'', Healthcheck = [''pg_isready'']\<rparr>
          = [(''dblab_control'', ''restore''),
             (''dblab_instance_id'', InstanceID (globalCfg exampleJob))]
      \<and> (\<exists>before rest.
           snd (snd (Run exampleWorld exampleJob [])) =
             before @ [GeneratePassword,
               ContainerCreate
                 \<lparr>Labels = [(''dblab_control'', ''restore''), (''dblab_instance_id'', ''i1'')],
                  Env = [''PATH=/usr/bin'', ''PGDATA=/var/lib/dblab/data'',
                         ''POSTGRES_PASSWORD=id''],
                  Image = ''postgres:13'', Healthcheck = [''pg_isready'']\<rparr>
                 \<lparr>Mounts = [], Settings = []\<rparr> ''dblab_lr_i1''] @ rest
           \<and> Env \<lparr>Labels = [(''dblab_control'', ''restore''), (''dblab_instance_id'', ''i1'')],
                  Env = [''PATH=/usr/bin'', ''PGDATA=/var/lib/dblab/data'',
                         ''POSTGRES_PASSWORD=id''],
                  Image = ''postgres:13'', Healthcheck = [''pg_isready'']\<rparr>
               = os_Environ exampleWorld
                 @ [''PGDATA='' @ DataDir (fsPool exampleJob),
                    ''POSTGRES_PASSWORD='' @ outString exampleWorld (before @ [GeneratePassword])]))"
proof -
  have reach: "ContainerCreate
     \<lparr>Labels = [(''dblab_control'', ''restore''), (''dblab_instance_id'', ''i1'')],
      Env = [''PATH=/usr/bin'', ''PGDATA=/var/lib/dblab/data'', ''POSTGRES_PASSWORD=id''],
      Image = ''postgres:13'', Healthcheck = [''pg_isready'']\<rparr>
     \<lparr>Mounts = [], Settings = []\<rparr> ''dblab_lr_i1''
     \<in> set (newCalls [] (snd (snd (Run exampleWorld exampleJob []))))"
    by (simp add: Run_example newCalls_def)
  from reach Run_container_create [OF reach] show ?thesis by (rule conjI)
qed

subsection \<open>A mark that carries an earlier timestamp\<close>

lemma Run_stale:
  "Run staleWorld twoDumpsJob [] =
     (None,
      twoDumpsJob\<lparr>dbMark := \<lparr>DataType = ''logical'', DataStateAt = ''20200101000000''\<rparr>\<rparr>,
      [IsEmptyDirectory ''/var/lib/dblab/data'', PullImage ''postgres:13'',
       BuildHostConfig ''/var/lib/dblab/data'' [], GeneratePassword,
       ContainerCreate
         \<lparr>Labels = [(''dblab_control'', ''restore''), (''dblab_instance_id'', ''i1'')],
          Env = [''PATH=/usr/bin'', ''PGDATA=/var/lib/dblab/data'', ''POSTGRES_PASSWORD=id''],
          Image = ''postgres:13'', Healthcheck = [''pg_isready'']\<rparr>
         \<lparr>Mounts = [], Settings = []\<rparr> ''dblab_lr_i1'',
       ContainerStart ''id'', CheckContainerReadiness ''id'',
       ExecCommandWithOutput ''id''
         \<lparr>Tty = True, AttachStdout = False, AttachStderr = False,
          Cmd = [''pg_restore'', ''--username'', ''postgres'', ''--dbname'', ''postgres'',
                 ''--no-privileges'', ''--no-owner'', ''--create'', ''--jobs'', ''1'',
                 ''/dump/orders'']\<rparr>,
       ContainerExecCreate ''id''
         \<lparr>Tty = False, AttachStdout = True, AttachStderr = True,
          Cmd = [''sh'', ''-c'', ''pg_restore --list /dump/orders | head -n 10'']\<rparr>,
       ContainerExecAttach ''exec: pg_restore --list /dump/orders | head -n 10'',
       DiscoverDataStateAt ''exec: pg_restore --list /dump/orders | head -n 10'',
       CloseAttach ''exec: pg_restore --list /dump/orders | head -n 10'',
       CreateConfig,
       SaveConfig \<lparr>DataType = ''logical'', DataStateAt = ''20200101000000''\<rparr>,
       ExecCommandWithOutput ''id''
         \<lparr>Tty = True, AttachStdout = False, AttachStderr = False,
          Cmd = [''pg_restore'', ''--username'', ''postgres'', ''--dbname'', ''postgres'',
                 ''--no-privileges'', ''--no-owner'', ''--create'', ''--jobs'', ''1'',
                 ''/dump/users'']\<rparr>,
       ContainerExecCreate ''id''
         \<lparr>Tty = False, AttachStdout = True, AttachStderr = True,
          Cmd = [''sh'', ''-c'', ''pg_restore --list /dump/users | head -n 10'']\<rparr>,
       ContainerExecAttach ''exec: pg_restore --list /dump/users | head -n 10'',
       DiscoverDataStateAt ''exec: pg_restore --list /dump/users | head -n 10'',
       CloseAttach ''exec: pg_restore --list /dump/users | head -n 10'',
       CreateConfig,
       SaveConfig \<lparr>DataType = ''logical'', DataStateAt = ''20200101000000''\<rparr>,
       ExecCommand ''id''
         \<lparr>Tty = False, AttachStdout = False, AttachStderr = False,
          Cmd = [''vacuumdb'', ''--analyze'']\<rparr>,
       StopPostgres ''id'' ''/var/lib/dblab/data'', RemoveContainer ''id''])"
  by (simp add: Run_def createContainer_def runContainer_def configureContainer_def
      restoreDatabases_def getDBList_def restoreDB_def markDatabase_def
      retrieveDataStateAt_def updateDataStateAt_def finishRestore_def getHostConfig_def
      buildContainerConfig_def buildLogicalRestoreCommand_def buildPGRestoreCommand_def
      getDumpLocation_def restoreContainerName_def restoreContainerPrefix_def
      staleWorld_def twoDumpsJob_def
      exampleWorld_def exampleJob_def exampleOptions_def Let_def HasPrefix_def
      path_Join_example path_Join_users customFormat_def directoryFormat_def
      plainFormat_def defaults_DBName_def Itoa_def DBLabControlLabel_def DBLabRestoreLabel_def
      DBLabInstanceIDLabel_def LogicalDataType_def)

lemma retrieveDataStateAt_users_fails:
  "retrieveDataStateAt staleWorld h ''id'' ''/dump/users'' =
     (Inl (External ''no snapshot line''),
      h @ [ContainerExecCreate ''id''
             \<lparr>Tty = False, AttachStdout = True, AttachStderr = True,
              Cmd = [''sh'', ''-c'', ''pg_restore --list /dump/users | head -n 10'']\<rparr>,
           ContainerExecAttach ''exec: pg_restore --list /dump/users | head -n 10'',
           DiscoverDataStateAt ''exec: pg_restore --list /dump/users | head -n 10'',
           CloseAttach ''exec: pg_restore --list /dump/users | head -n 10''])"
  by (simp add: retrieveDataStateAt_def staleWorld_def exampleWorld_def Let_def)

lemma staleWorld_failure:
  "failure staleWorld h =
     (if last h = DiscoverDataStateAt ''exec: pg_restore --list /dump/users | head -n 10''
      then Some (External ''no snapshot line'') else None)"
  by (simp add: staleWorld_def exampleWorld_def)

lemma markDatabase_without_timestamp:
  assumes "fst (retrieveDataStateAt w h contID loc) = Inl err"
    and "failure w (snd (retrieveDataStateAt w h contID loc) @ [CreateConfig]) = None"
  shows "snd (snd (markDatabase w r h contID loc)) =
           snd (retrieveDataStateAt w h contID loc) @ [CreateConfig, SaveConfig (dbMark r)]"
  using assms
  by (cases "retrieveDataStateAt w h contID loc")
    (simp add: markDatabase_def Let_def split: option.split)

text \<open>
  C10. When reading the timestamp fails and the marker's configuration can be created,
  \<open>markDatabase\<close> still saves a mark: the job's mark as it was before. In the run over
  the dumps \<open>orders\<close> and \<open>users\<close> in which reading the timestamp of \<open>users\<close>
  fails, the mark saved for \<open>users\<close> carries the timestamp read for \<open>orders\<close>.
\<close>

theorem mark_carries_earlier_timestamp:
  "(fst (retrieveDataStateAt w h contID loc) = Inl err
      \<and> failure w (snd (retrieveDataStateAt w h contID loc) @ [CreateConfig]) = None
    \<longrightarrow> snd (snd (markDatabase w r h contID loc)) =
          snd (retrieveDataStateAt w h contID loc) @ [CreateConfig, SaveConfig (dbMark r)])
   \<and> fst (retrieveDataStateAt staleWorld h' ''id'' ''/dump/users'')
       = Inl (External ''no snapshot line'')
   \<and> filter isTimestampOrSave (snd (snd (Run staleWorld twoDumpsJob []))) =
       [DiscoverDataStateAt ''exec: pg_restore --list /dump/orders | head -n 10'',
        SaveConfig \<lparr>DataType = ''logical'', DataStateAt = ''20200101000000''\<rparr>,
        DiscoverDataStateAt ''exec: pg_restore --list /dump/users | head -n 10'',
        SaveConfig \<lparr>DataType = ''logical'', DataStateAt = ''20200101000000''\<rparr>]"
proof (intro conjI impI)
  assume "fst (retrieveDataStateAt w h contID loc) = Inl err
      \<and> failure w (snd (retrieveDataStateAt w h contID loc) @ [CreateConfig]) = None"
  then show "snd (snd (markDatabase w r h contID loc)) =
          snd (retrieveDataStateAt w h contID loc) @ [CreateConfig, SaveConfig (dbMark r)]"
    by (simp add: markDatabase_without_timestamp)
next
  show "fst (retrieveDataStateAt staleWorld h' ''id'' ''/dump/users'')
       = Inl (External ''no snapshot line'')"
    by (simp add: retrieveDataStateAt_users_fails)
next
  show "filter isTimestampOrSave (snd (snd (Run staleWorld twoDumpsJob []))) =
       [DiscoverDataStateAt ''exec: pg_restore --list /dump/orders | head -n 10'',
        SaveConfig \<lparr>DataType = ''logical'', DataStateAt = ''20200101000000''\<rparr>,
        DiscoverDataStateAt ''exec: pg_restore --list /dump/users | head -n 10'',
        SaveConfig \<lparr>DataType = ''logical'', DataStateAt = ''20200101000000''\<rparr>]"
    by (simp add: Run_stale)
qed

theorem mark_carries_earlier_timestamp_witness:
  "fst (retrieveDataStateAt staleWorld [] ''id'' ''/dump/users'') = Inl (External ''no snapshot line'')
   \<and> failure staleWorld (snd (retrieveDataStateAt staleWorld [] ''id'' ''/dump/users'') @ [CreateConfig]) = None
   \<and> snd (snd (markDatabase staleWorld
        (twoDumpsJob\<lparr>dbMark := \<lparr>DataType = ''logical'', DataStateAt = ''20200101000000''\<rparr>\<rparr>)
        [] ''id'' ''/dump/users'')) =
      [ContainerExecCreate ''id''
         \<lparr>Tty = False, AttachStdout = True, AttachStderr = True,
          Cmd = [''sh'', ''-c'', ''pg_restore --list /dump/users | head -n 10'']\<rparr>,
       ContainerExecAttach ''exec: pg_restore --list /dump/users | head -n 10'',
       DiscoverDataStateAt ''exec: pg_restore --list /dump/users | head -n 10'',
       CloseAttach ''exec: pg_restore --list /dump/users | head -n 10'',
       CreateConfig,
       SaveConfig \<lparr>DataType = ''logical'', DataStateAt = ''20200101000000''\<rparr>]"
  using mark_carries_earlier_timestamp [of staleWorld "[]" "''id''" "''/dump/users''"
      "External ''no snapshot line''"
      "twoDumpsJob\<lparr>dbMark := \<lparr>DataType = ''logical'', DataStateAt = ''20200101000000''\<rparr>\<rparr>" "[]"]
  by (simp add: retrieveDataStateAt_users_fails staleWorld_failure)

end
